theory Spec2Isabelle
  imports Complex_Main
begin

section \<open>JavaScript numbers\<close>

text \<open>
  A JavaScript number is modelled as an exact real, or one of the three special IEEE values.
  Rounding of the binary representation, overflow to infinity and the sign of zero are not
  modelled: every zero is the positive zero.  An array read out of range yields
  \<open>undefined\<close>, which behaves as \<open>NaN\<close> in arithmetic and comparisons; it is
  modelled as \<open>NaN\<close>, and a method call on \<open>undefined\<close> is written out as a
  thrown error where the source makes one.
\<close>

datatype jsnum = NaN | PInf | NInf | Fin real

fun js_neg :: "jsnum \<Rightarrow> jsnum" where
  "js_neg NaN = NaN"
| "js_neg PInf = NInf"
| "js_neg NInf = PInf"
| "js_neg (Fin a) = Fin (- a)"

fun js_add :: "jsnum \<Rightarrow> jsnum \<Rightarrow> jsnum" where
  "js_add (Fin a) (Fin b) = Fin (a + b)"
| "js_add NaN y = NaN"
| "js_add x NaN = NaN"
| "js_add PInf NInf = NaN"
| "js_add NInf PInf = NaN"
| "js_add PInf y = PInf"
| "js_add x PInf = PInf"
| "js_add NInf y = NInf"
| "js_add x NInf = NInf"

definition js_sub :: "jsnum \<Rightarrow> jsnum \<Rightarrow> jsnum" where
  "js_sub x y = js_add x (js_neg y)"

fun js_mul :: "jsnum \<Rightarrow> jsnum \<Rightarrow> jsnum" where
  "js_mul (Fin a) (Fin b) = Fin (a * b)"
| "js_mul NaN y = NaN"
| "js_mul x NaN = NaN"
| "js_mul PInf PInf = PInf"
| "js_mul PInf NInf = NInf"
| "js_mul NInf PInf = NInf"
| "js_mul NInf NInf = PInf"
| "js_mul PInf (Fin b) = (if b = 0 then NaN else if 0 < b then PInf else NInf)"
| "js_mul NInf (Fin b) = (if b = 0 then NaN else if 0 < b then NInf else PInf)"
| "js_mul (Fin a) PInf = (if a = 0 then NaN else if 0 < a then PInf else NInf)"
| "js_mul (Fin a) NInf = (if a = 0 then NaN else if 0 < a then NInf else PInf)"

fun js_div :: "jsnum \<Rightarrow> jsnum \<Rightarrow> jsnum" where
  "js_div (Fin a) (Fin b) =
     (if b = 0 then (if a = 0 then NaN else if 0 < a then PInf else NInf) else Fin (a / b))"
| "js_div NaN y = NaN"
| "js_div x NaN = NaN"
| "js_div (Fin a) PInf = Fin 0"
| "js_div (Fin a) NInf = Fin 0"
| "js_div PInf (Fin b) = (if 0 \<le> b then PInf else NInf)"
| "js_div NInf (Fin b) = (if 0 \<le> b then NInf else PInf)"
| "js_div PInf PInf = NaN"
| "js_div PInf NInf = NaN"
| "js_div NInf PInf = NaN"
| "js_div NInf NInf = NaN"

fun js_lt :: "jsnum \<Rightarrow> jsnum \<Rightarrow> bool" where
  "js_lt (Fin a) (Fin b) = (a < b)"
| "js_lt NaN y = False"
| "js_lt x NaN = False"
| "js_lt NInf NInf = False"
| "js_lt NInf (Fin b) = True"
| "js_lt NInf PInf = True"
| "js_lt (Fin a) PInf = True"
| "js_lt (Fin a) NInf = False"
| "js_lt PInf y = False"

definition js_gt :: "jsnum \<Rightarrow> jsnum \<Rightarrow> bool" where
  "js_gt x y = js_lt y x"

definition js_le :: "jsnum \<Rightarrow> jsnum \<Rightarrow> bool" where
  "js_le x y = (x \<noteq> NaN \<and> y \<noteq> NaN \<and> (js_lt x y \<or> x = y))"

definition js_ge :: "jsnum \<Rightarrow> jsnum \<Rightarrow> bool" where
  "js_ge x y = js_le y x"

fun js_abs :: "jsnum \<Rightarrow> jsnum" where
  "js_abs NaN = NaN"
| "js_abs PInf = PInf"
| "js_abs NInf = PInf"
| "js_abs (Fin a) = Fin \<bar>a\<bar>"

text \<open>\<open>Math.max\<close> and \<open>Math.min\<close> of two numbers: \<open>NaN\<close> when either is.\<close>

definition js_max :: "jsnum \<Rightarrow> jsnum \<Rightarrow> jsnum" where
  "js_max x y = (if x = NaN \<or> y = NaN then NaN else if js_lt x y then y else x)"

definition js_min :: "jsnum \<Rightarrow> jsnum \<Rightarrow> jsnum" where
  "js_min x y = (if x = NaN \<or> y = NaN then NaN else if js_lt y x then y else x)"

fun js_sqrt :: "jsnum \<Rightarrow> jsnum" where
  "js_sqrt NaN = NaN"
| "js_sqrt PInf = PInf"
| "js_sqrt NInf = NaN"
| "js_sqrt (Fin a) = (if a < 0 then NaN else Fin (sqrt a))"

text \<open>\<open>xs.reduce((a, b) => a + b, 0)\<close>\<close>

definition js_sum :: "jsnum list \<Rightarrow> jsnum" where
  "js_sum xs = foldl js_add (Fin 0) xs"

text \<open>\<open>xs.slice(s, e)\<close> for indices \<open>0 \<le> s\<close> and \<open>0 \<le> e\<close>.\<close>

definition slice :: "'a list \<Rightarrow> nat \<Rightarrow> nat \<Rightarrow> 'a list" where
  "slice xs s e = take (e - s) (drop s xs)"

section \<open>Indicator library (class TechnicalIndicators)\<close>

text \<open>
  \<open>SMA(data, period)\<close>: the loop runs \<open>i\<close> from \<open>period - 1\<close> to
  \<open>data.length - 1\<close>.  For \<open>period = 0\<close> it starts at \<open>-1\<close>, where
  the window \<open>data.slice(0, 0)\<close> is empty, as is every later window
  \<open>data.slice(i + 1, i + 1)\<close>: there are \<open>data.length + 1\<close> iterations, each
  pushing \<open>0 / 0\<close>.  The list index \<open>j\<close> below is \<open>i - period + 1\<close>.
\<close>

definition SMA :: "jsnum list \<Rightarrow> nat \<Rightarrow> jsnum list" where
  "SMA data period =
     map (\<lambda>j. js_div (js_sum (slice data j (j + period))) (Fin (real period)))
       [0 ..< length data + 1 - period]"

text \<open>\<open>xs.slice(k)\<close> for any integer \<open>k\<close>: a negative \<open>k\<close> counts from the end.\<close>

definition slice_from :: "'a list \<Rightarrow> int \<Rightarrow> 'a list" where
  "slice_from xs k =
     (if k < 0 then drop (nat (max (int (length xs) + k) 0)) xs else drop (nat k) xs)"

text \<open>\<open>xs[i]\<close> used as a number: \<open>undefined\<close> out of range.\<close>

definition nth_js :: "jsnum list \<Rightarrow> int \<Rightarrow> jsnum" where
  "nth_js xs i = (if 0 \<le> i \<and> i < int (length xs) then xs ! nat i else NaN)"

text \<open>\<open>xs[xs.length - 1]\<close> used as a number.\<close>

definition last_js :: "jsnum list \<Rightarrow> jsnum" where
  "last_js xs = nth_js xs (int (length xs) - 1)"

text \<open>\<open>Math.max(...xs)\<close> and \<open>Math.min(...xs)\<close>.\<close>

definition js_max_list :: "jsnum list \<Rightarrow> jsnum" where
  "js_max_list xs = foldl js_max NInf xs"

definition js_min_list :: "jsnum list \<Rightarrow> jsnum" where
  "js_min_list xs = foldl js_min PInf xs"

text \<open>
  \<open>EMA(data, period)\<close>: the first value is the mean of \<open>data.slice(0, period)\<close>;
  the loop then reads \<open>data[period]\<close>, ..., \<open>data[data.length - 1]\<close> in turn.
\<close>

fun ema_loop :: "jsnum \<Rightarrow> jsnum \<Rightarrow> jsnum list \<Rightarrow> jsnum list" where
  "ema_loop multiplier prev [] = []"
| "ema_loop multiplier prev (x # xs) =
     (let e = js_add (js_mul (js_sub x prev) multiplier) prev
      in e # ema_loop multiplier e xs)"

definition EMA :: "jsnum list \<Rightarrow> nat \<Rightarrow> jsnum list" where
  "EMA data period =
     (let multiplier = js_div (Fin 2) (Fin (real period + 1));
          e0 = js_div (js_sum (slice data 0 period)) (Fin (real period))
      in e0 # ema_loop multiplier e0 (drop period data))"

record macd_result =
  macd :: "jsnum list"
  signal :: "jsnum list"
  histogram :: "jsnum list"

definition MACD :: "jsnum list \<Rightarrow> nat \<Rightarrow> nat \<Rightarrow> nat \<Rightarrow> macd_result" where
  "MACD data fastPeriod slowPeriod signalPeriod =
     (let fastEMA = EMA data fastPeriod;
          slowEMA = EMA data slowPeriod;
          sizeDiff = int (length slowEMA) - int (length fastEMA);
          alignedFastEMA = slice_from fastEMA sizeDiff;
          macdLine = map (\<lambda>(fast, i). js_sub fast (nth_js slowEMA (int i)))
                       (zip alignedFastEMA [0 ..< length alignedFastEMA]);
          signalLine = EMA macdLine signalPeriod;
          macdAligned = slice_from macdLine (int (length macdLine) - int (length signalLine));
          hist = map (\<lambda>(m, i). js_sub m (nth_js signalLine (int i)))
                   (zip macdAligned [0 ..< length macdAligned])
      in \<lparr>macd = macdAligned, signal = signalLine, histogram = hist\<rparr>)"

text \<open>
  \<open>RSI(data, period)\<close>.  \<open>differences\<close> lists \<open>data[i] - data[i - 1]\<close> for
  \<open>i = 1, ..., data.length - 1\<close>; the loop runs over
  \<open>gains[period], ..., gains[gains.length - 1]\<close>, pushing the value computed from the
  averages before they are updated.
\<close>

definition differences :: "jsnum list \<Rightarrow> jsnum list" where
  "differences data = map (\<lambda>(prev, cur). js_sub cur prev) (zip data (tl data))"

definition gains_of :: "jsnum list \<Rightarrow> jsnum list" where
  "gains_of data = map (\<lambda>d. if js_gt d (Fin 0) then d else Fin 0) (differences data)"

definition losses_of :: "jsnum list \<Rightarrow> jsnum list" where
  "losses_of data = map (\<lambda>d. if js_lt d (Fin 0) then js_abs d else Fin 0) (differences data)"

definition rsi_value :: "jsnum \<Rightarrow> jsnum \<Rightarrow> jsnum" where
  "rsi_value avgGain avgLoss =
     (let rs = js_div avgGain avgLoss
      in js_sub (Fin 100) (js_div (Fin 100) (js_add (Fin 1) rs)))"

definition smooth :: "nat \<Rightarrow> jsnum \<Rightarrow> jsnum \<Rightarrow> jsnum" where
  "smooth period avg x =
     js_div (js_add (js_mul avg (Fin (real period - 1))) x) (Fin (real period))"

fun rsi_loop :: "nat \<Rightarrow> jsnum \<Rightarrow> jsnum \<Rightarrow> (jsnum \<times> jsnum) list \<Rightarrow> jsnum list" where
  "rsi_loop period avgGain avgLoss [] = []"
| "rsi_loop period avgGain avgLoss ((g, l) # rest) =
     rsi_value avgGain avgLoss # rsi_loop period (smooth period avgGain g) (smooth period avgLoss l) rest"

definition RSI :: "jsnum list \<Rightarrow> nat \<Rightarrow> jsnum list" where
  "RSI data period =
     (let gains = gains_of data;
          losses = losses_of data;
          avgGain = js_div (js_sum (slice gains 0 period)) (Fin (real period));
          avgLoss = js_div (js_sum (slice losses 0 period)) (Fin (real period))
      in rsi_loop period avgGain avgLoss (zip (drop period gains) (drop period losses)))"

record bands =
  upper :: "jsnum list"
  middle :: "jsnum list"
  lower :: "jsnum list"

definition BollingerBands :: "jsnum list \<Rightarrow> nat \<Rightarrow> jsnum \<Rightarrow> bands" where
  "BollingerBands data period stdDev =
     (let sma = SMA data period;
          sd = (\<lambda>i. let dataSlice = slice data i (i + period);
                        mean = sma ! i;
                        variance = js_div
                          (foldl (\<lambda>sum val. js_add sum (js_mul (js_sub val mean) (js_sub val mean)))
                             (Fin 0) dataSlice)
                          (Fin (real period))
                    in js_sqrt variance)
      in \<lparr>upper = map (\<lambda>i. js_add (sma ! i) (js_mul (sd i) stdDev)) [0 ..< length sma],
          middle = sma,
          lower = map (\<lambda>i. js_sub (sma ! i) (js_mul (sd i) stdDev)) [0 ..< length sma]\<rparr>)"

text \<open>
  The oscillators run \<open>i\<close> from \<open>period - 1\<close>; the index \<open>j\<close> below is
  \<open>i - period + 1\<close>, so the window is \<open>slice(j, j + period)\<close> and the close read
  is \<open>closes[j + period - 1]\<close> (out of range at \<open>-1\<close> when \<open>period = 0\<close>).
\<close>

record stochastic_result =
  k :: "jsnum list"
  d :: "jsnum list"

definition Stochastic :: "jsnum list \<Rightarrow> jsnum list \<Rightarrow> jsnum list \<Rightarrow> nat \<Rightarrow> nat \<Rightarrow> stochastic_result" where
  "Stochastic highs lows closes kPeriod dPeriod =
     (let ks = map (\<lambda>j. let highestHigh = js_max_list (slice highs j (j + kPeriod));
                            lowestLow = js_min_list (slice lows j (j + kPeriod));
                            currentClose = nth_js closes (int j + int kPeriod - 1)
                        in js_mul (js_div (js_sub currentClose lowestLow)
                                          (js_sub highestHigh lowestLow)) (Fin 100))
                  [0 ..< length closes + 1 - kPeriod]
      in \<lparr>k = ks, d = SMA ks dPeriod\<rparr>)"

definition ATR :: "jsnum list \<Rightarrow> jsnum list \<Rightarrow> jsnum list \<Rightarrow> nat \<Rightarrow> jsnum list" where
  "ATR highs lows closes period =
     (let trueRanges = map (\<lambda>i. let tr1 = js_sub (nth_js highs (int i)) (nth_js lows (int i));
                                    tr2 = js_abs (js_sub (nth_js highs (int i)) (nth_js closes (int i - 1)));
                                    tr3 = js_abs (js_sub (nth_js lows (int i)) (nth_js closes (int i - 1)))
                                in js_max (js_max tr1 tr2) tr3)
                          [1 ..< length closes]
      in SMA trueRanges period)"

definition WilliamsR :: "jsnum list \<Rightarrow> jsnum list \<Rightarrow> jsnum list \<Rightarrow> nat \<Rightarrow> jsnum list" where
  "WilliamsR highs lows closes period =
     map (\<lambda>j. let highestHigh = js_max_list (slice highs j (j + period));
                  lowestLow = js_min_list (slice lows j (j + period));
                  currentClose = nth_js closes (int j + int period - 1)
              in js_mul (js_div (js_sub highestHigh currentClose)
                                (js_sub highestHigh lowestLow)) (Fin (- 100)))
       [0 ..< length closes + 1 - period]"

section \<open>Market analysis (class ForexAI)\<close>

text \<open>One element of the array \<open>getMarketData\<close> returns.\<close>

record candle =
  timestamp :: int
  open_c :: jsnum
  high :: jsnum
  low :: jsnum
  close :: jsnum
  volume :: jsnum

record indicators =
  sma20 :: "jsnum list"
  sma50 :: "jsnum list"
  ema12 :: "jsnum list"
  ema26 :: "jsnum list"
  macd_i :: macd_result
  rsi :: "jsnum list"
  bollinger :: bands
  stochastic :: stochastic_result
  atr :: "jsnum list"
  williamsR :: "jsnum list"

definition calculateIndicators :: "candle list \<Rightarrow> indicators" where
  "calculateIndicators data =
     (let prices = map close data;
          highs = map high data;
          lows = map low data
      in \<lparr>sma20 = SMA prices 20,
          sma50 = SMA prices 50,
          ema12 = EMA prices 12,
          ema26 = EMA prices 26,
          macd_i = MACD prices 12 26 9,
          rsi = RSI prices 14,
          bollinger = BollingerBands prices 20 (Fin 2),
          stochastic = Stochastic highs lows prices 14 3,
          atr = ATR highs lows prices 14,
          williamsR = WilliamsR highs lows prices 14\<rparr>)"

record patterns =
  doji :: bool
  hammer :: bool
  shootingStar :: bool
  engulfing :: bool
  morning_star :: bool
  evening_star :: bool

definition detectPatterns :: "candle list \<Rightarrow> patterns" where
  "detectPatterns data =
     (if length data < 3
      then \<lparr>doji = False, hammer = False, shootingStar = False, engulfing = False,
            morning_star = False, evening_star = False\<rparr>
      else
        let recent = slice_from data (- 3);
            current = recent ! (length recent - 1);
            previous = recent ! (length recent - 2);
            bodySize = js_abs (js_sub (close current) (open_c current));
            candleRange = js_sub (high current) (low current);
            lowerShadow = (if js_gt (open_c current) (close current)
                           then js_sub (close current) (low current)
                           else js_sub (open_c current) (low current));
            upperShadow = js_sub (high current) (js_max (open_c current) (close current));
            prevBody = js_abs (js_sub (close previous) (open_c previous));
            currBody = js_abs (js_sub (close current) (open_c current))
        in \<lparr>doji = js_lt (js_div bodySize candleRange) (Fin (1 / 10)),
            hammer = (js_gt lowerShadow (js_mul bodySize (Fin 2)) \<and>
                      js_lt upperShadow (js_mul bodySize (Fin (1 / 2)))),
            shootingStar = (js_gt upperShadow (js_mul bodySize (Fin 2)) \<and>
                            js_lt lowerShadow (js_mul bodySize (Fin (1 / 2)))),
            engulfing = (js_gt currBody (js_mul prevBody (Fin (3 / 2))) \<and>
                         ((js_lt (close previous) (open_c previous) \<and>
                           js_gt (close current) (open_c current)) \<or>
                          (js_gt (close previous) (open_c previous) \<and>
                           js_lt (close current) (open_c current)))),
            morning_star = False,
            evening_star = False\<rparr>)"

definition findLocalMaxima :: "jsnum list \<Rightarrow> nat \<Rightarrow> jsnum list" where
  "findLocalMaxima data window =
     map (\<lambda>i. data ! i)
       (filter (\<lambda>i. list_all (\<lambda>v. js_le v (data ! i)) (slice data (i - window) (i + window + 1)))
          [window ..< length data - window])"

definition findLocalMinima :: "jsnum list \<Rightarrow> nat \<Rightarrow> jsnum list" where
  "findLocalMinima data window =
     map (\<lambda>i. data ! i)
       (filter (\<lambda>i. list_all (\<lambda>v. js_ge v (data ! i)) (slice data (i - window) (i + window + 1)))
          [window ..< length data - window])"

record support_resistance =
  resistance :: "jsnum list"
  support :: "jsnum list"
  current_price :: jsnum

definition findSupportResistance :: "candle list \<Rightarrow> support_resistance" where
  "findSupportResistance data =
     (let prices = map close data;
          highs = map high data;
          lows = map low data
      in \<lparr>resistance = slice_from (findLocalMaxima highs 5) (- 3),
          support = slice_from (findLocalMinima lows 5) (- 3),
          current_price = last_js prices\<rparr>)"

datatype direction = sideways | uptrend | downtrend

datatype position = above | below

record trend =
  direction :: direction
  strength :: jsnum
  sma20_position :: position
  sma50_position :: position

definition analyzeTrend :: "candle list \<Rightarrow> indicators \<Rightarrow> trend" where
  "analyzeTrend data ind =
     (let prices = map close data;
          currentPrice = last_js prices;
          s20 = last_js (sma20 ind);
          s50 = last_js (sma50 ind);
          (tr, str) =
            (if js_gt currentPrice s20 \<and> js_gt s20 s50
             then (uptrend, js_mul (js_div (js_sub currentPrice s50) s50) (Fin 100))
             else if js_lt currentPrice s20 \<and> js_lt s20 s50
             then (downtrend, js_mul (js_div (js_sub s50 currentPrice) s50) (Fin 100))
             else (sideways, Fin 0))
      in \<lparr>direction = tr,
          strength = js_abs str,
          sma20_position = (if js_gt currentPrice s20 then above else below),
          sma50_position = (if js_gt currentPrice s50 then above else below)\<rparr>)"

record volume_analysis =
  average_volume :: jsnum
  current_volume :: jsnum
  volume_ratio :: jsnum
  is_high_volume :: bool

text \<open>\<open>x || 0\<close> on a number: \<open>NaN\<close> and \<open>0\<close> are falsy.\<close>

definition or_zero :: "jsnum \<Rightarrow> jsnum" where
  "or_zero x = (if x = NaN then Fin 0 else x)"

definition analyzeVolume :: "candle list \<Rightarrow> volume_analysis" where
  "analyzeVolume data =
     (let volumes = map (\<lambda>c. or_zero (volume c)) data;
          avgVolume = js_div (js_sum volumes) (Fin (real (length volumes)));
          currentVolume = last_js volumes
      in \<lparr>average_volume = avgVolume,
          current_volume = currentVolume,
          volume_ratio = js_div currentVolume avgVolume,
          is_high_volume = js_gt currentVolume (js_mul avgVolume (Fin (3 / 2)))\<rparr>)"

subsection \<open>makeDecision\<close>

datatype action = buy | sell | hold

datatype risk_level = risk_low | risk_medium | risk_high

text \<open>
  The strings pushed to \<open>reasons\<close>, one constructor each; the two trend reasons carry
  the number that the template string prints with \<open>toFixed(2)\<close>.
\<close>

datatype reason =
    RSI_oversold
  | RSI_overbought
  | MACD_bullish_crossover
  | MACD_bearish_crossover
  | Price_at_lower_Bollinger_Band
  | Price_at_upper_Bollinger_Band
  | Strong_uptrend jsnum
  | Strong_downtrend jsnum
  | Bullish_candlestick_pattern
  | Bearish_candlestick_pattern
  | Price_near_support_level
  | Price_near_resistance_level
  | High_volume_confirmation

text \<open>
  \<open>x.toFixed(digits)\<close> read back as a number: the decimal with \<open>digits\<close> places
  nearest to \<open>x\<close>, the larger in magnitude on a tie (the exponent form that
  JavaScript prints from \<open>1e21\<close> on is not modelled).
\<close>

definition toFixed :: "nat \<Rightarrow> real \<Rightarrow> real" where
  "toFixed digits x =
     (if x < 0 then - (real_of_int \<lfloor>- x * 10 ^ digits + 1 / 2\<rfloor> / 10 ^ digits)
      else real_of_int \<lfloor>x * 10 ^ digits + 1 / 2\<rfloor> / 10 ^ digits)"

fun js_toFixed :: "nat \<Rightarrow> jsnum \<Rightarrow> jsnum" where
  "js_toFixed digits (Fin x) = Fin (toFixed digits x)"
| "js_toFixed digits x = x"

record analysis =
  symbol :: string
  indicators_a :: indicators
  patterns_a :: patterns
  supportResistance :: support_resistance
  trend_a :: trend
  volumeAnalysis :: volume_analysis
  currentPrice :: jsnum

text \<open>The accumulators of \<open>makeDecision\<close>.\<close>

record signals =
  bullishSignals :: real
  bearishSignals :: real
  signalStrength :: real
  reasons :: "reason list"

definition add_bullish :: "real \<Rightarrow> reason \<Rightarrow> signals \<Rightarrow> signals" where
  "add_bullish w r s = s\<lparr>bullishSignals := bullishSignals s + w, reasons := reasons s @ [r]\<rparr>"

definition add_bearish :: "real \<Rightarrow> reason \<Rightarrow> signals \<Rightarrow> signals" where
  "add_bearish w r s = s\<lparr>bearishSignals := bearishSignals s + w, reasons := reasons s @ [r]\<rparr>"

definition rsi_signal :: "analysis \<Rightarrow> signals \<Rightarrow> signals" where
  "rsi_signal a s =
     (let r = last_js (rsi (indicators_a a))
      in if js_lt r (Fin 30) then add_bullish 2 RSI_oversold s
         else if js_gt r (Fin 70) then add_bearish 2 RSI_overbought s
         else s)"

definition macd_signal :: "analysis \<Rightarrow> signals \<Rightarrow> signals" where
  "macd_signal a s =
     (let m = macd_i (indicators_a a);
          macdLine = last_js (macd m);
          signalLine = last_js (signal m);
          hist = last_js (histogram m)
      in if js_gt macdLine signalLine \<and> js_gt hist (Fin 0)
         then add_bullish (3 / 2) MACD_bullish_crossover s
         else if js_lt macdLine signalLine \<and> js_lt hist (Fin 0)
         then add_bearish (3 / 2) MACD_bearish_crossover s
         else s)"

definition bollinger_signal :: "analysis \<Rightarrow> signals \<Rightarrow> signals" where
  "bollinger_signal a s =
     (let b = bollinger (indicators_a a);
          upperBand = last_js (upper b);
          lowerBand = last_js (lower b)
      in if js_le (currentPrice a) lowerBand then add_bullish 1 Price_at_lower_Bollinger_Band s
         else if js_ge (currentPrice a) upperBand then add_bearish 1 Price_at_upper_Bollinger_Band s
         else s)"

definition trend_signal :: "analysis \<Rightarrow> signals \<Rightarrow> signals" where
  "trend_signal a s =
     (let t = trend_a a
      in if direction t = uptrend \<and> js_gt (strength t) (Fin 1)
         then add_bullish 1 (Strong_uptrend (js_toFixed 2 (strength t))) s
         else if direction t = downtrend \<and> js_gt (strength t) (Fin 1)
         then add_bearish 1 (Strong_downtrend (js_toFixed 2 (strength t))) s
         else s)"

definition pattern_signal :: "analysis \<Rightarrow> signals \<Rightarrow> signals" where
  "pattern_signal a s =
     (let p = patterns_a a;
          s1 = (if hammer p \<or> morning_star p then add_bullish 1 Bullish_candlestick_pattern s else s)
      in if shootingStar p \<or> evening_star p then add_bearish 1 Bearish_candlestick_pattern s1 else s1)"

text \<open>\<open>Math.abs(currentPrice - level) / currentPrice < 0.001\<close>\<close>

definition near :: "jsnum \<Rightarrow> jsnum \<Rightarrow> bool" where
  "near price level = js_lt (js_div (js_abs (js_sub price level)) price) (Fin (1 / 1000))"

definition level_signal :: "analysis \<Rightarrow> signals \<Rightarrow> signals" where
  "level_signal a s =
     (let sr = supportResistance a;
          nearSupport = list_ex (near (currentPrice a)) (support sr);
          nearResistance = list_ex (near (currentPrice a)) (resistance sr);
          s1 = (if nearSupport then add_bullish (1 / 2) Price_near_support_level s else s)
      in if nearResistance then add_bearish (1 / 2) Price_near_resistance_level s1 else s1)"

definition volume_signal :: "analysis \<Rightarrow> signals \<Rightarrow> signals" where
  "volume_signal a s =
     (if is_high_volume (volumeAnalysis a)
      then s\<lparr>signalStrength := signalStrength s + 2 / 10,
             reasons := reasons s @ [High_volume_confirmation]\<rparr>
      else s)"

text \<open>The accumulators when the last analysis step of \<open>makeDecision\<close> is done.\<close>

definition collectSignals :: "analysis \<Rightarrow> signals" where
  "collectSignals a =
     volume_signal a (level_signal a (pattern_signal a (trend_signal a (bollinger_signal a
       (macd_signal a (rsi_signal a
          \<lparr>bullishSignals = 0, bearishSignals = 0, signalStrength = 0, reasons = []\<rparr>))))))"

text \<open>
  The action and confidence computed from the totals, before the cap at 0.95 and before the
  threshold is applied.
\<close>

definition vote :: "signals \<Rightarrow> action \<times> real" where
  "vote s =
     (let totalSignals = bullishSignals s + bearishSignals s
      in if 0 < totalSignals then
           if bearishSignals s < bullishSignals s
           then (buy, bullishSignals s / (bullishSignals s + bearishSignals s) * (8 / 10)
                        + signalStrength s)
           else if bullishSignals s < bearishSignals s
           then (sell, bearishSignals s / (bullishSignals s + bearishSignals s) * (8 / 10)
                        + signalStrength s)
           else (hold, 0)
         else (hold, 0))"

text \<open>The value of \<open>confidence\<close> after \<open>Math.min(confidence, 0.95)\<close>.\<close>

definition computed_confidence :: "analysis \<Rightarrow> real" where
  "computed_confidence a = min (snd (vote (collectSignals a))) (95 / 100)"

definition calculateRiskLevel :: "real \<Rightarrow> indicators \<Rightarrow> risk_level" where
  "calculateRiskLevel conf ind =
     (let a = last_js (atr ind);
          r = last_js (rsi ind);
          score1 = (if conf < 6 / 10 then 3 else if conf < 75 / 100 then 2 else (1::nat));
          score2 = score1 + (if js_gt a (Fin (2 / 1000)) then 2
                             else if js_gt a (Fin (1 / 1000)) then 1 else 0);
          riskScore = score2 + (if js_lt r (Fin 20) \<or> js_gt r (Fin 80) then 1 else 0)
      in if riskScore \<le> 2 then risk_low else if riskScore \<le> 4 then risk_medium else risk_high)"

text \<open>The two suggestions return \<open>null\<close> (here \<open>None\<close>) for \<open>hold\<close>.\<close>

definition calculateStopLoss :: "jsnum \<Rightarrow> indicators \<Rightarrow> action \<Rightarrow> jsnum option" where
  "calculateStopLoss price ind act =
     (let a = last_js (atr ind); atrMultiplier = Fin 2
      in if act = buy then Some (js_sub price (js_mul a atrMultiplier))
         else if act = sell then Some (js_add price (js_mul a atrMultiplier))
         else None)"

definition calculateTakeProfit :: "jsnum \<Rightarrow> indicators \<Rightarrow> action \<Rightarrow> jsnum option" where
  "calculateTakeProfit price ind act =
     (let a = last_js (atr ind); atrMultiplier = Fin 3
      in if act = buy then Some (js_add price (js_mul a atrMultiplier))
         else if act = sell then Some (js_sub price (js_mul a atrMultiplier))
         else None)"

datatype macd_side = bullish | bearish

datatype bb_half = upper_half | lower_half

record indicators_summary =
  rsi_s :: jsnum
  macd_signal_s :: macd_side
  trend_s :: direction
  bb_position :: bb_half

text \<open>The fields common to a decision and to the object returned when the analysis fails.\<close>

record outcome =
  action :: action
  confidence :: real

record decision = outcome +
  bullish_signals :: real
  bearish_signals :: real
  reasons_d :: "reason list"
  summary :: indicators_summary
  risk_level :: risk_level
  suggested_stop_loss :: "jsnum option"
  suggested_take_profit :: "jsnum option"

text \<open>
  What an \<open>Error\<close> caught by \<open>analyzeMarket\<close> can be: the one it throws itself, or
  the \<open>TypeError\<close> of \<open>rsi.toFixed(2)\<close> when the RSI array is empty.  The value
  stands for the error's message.
\<close>

datatype js_error = Dados_insuficientes_para_analise | TypeError_toFixed

record forex_ai =
  confidence_threshold :: jsnum

text \<open>
  The constructor: \<open>parseFloat(process.env.AI_CONFIDENCE_THRESHOLD || 0.75)\<close>.  The
  argument is the parsed variable, \<open>None\<close> when it is unset or empty.
\<close>

definition new_ForexAI :: "jsnum option \<Rightarrow> forex_ai" where
  "new_ForexAI env = \<lparr>confidence_threshold = (case env of None \<Rightarrow> Fin (75 / 100) | Some t \<Rightarrow> t)\<rparr>"

definition makeDecision :: "forex_ai \<Rightarrow> analysis \<Rightarrow> js_error + decision" where
  "makeDecision ai a =
     (let ind = indicators_a a;
          s = collectSignals a;
          conf = computed_confidence a;
          act = (if js_lt (Fin conf) (confidence_threshold ai) then hold else fst (vote s));
          macdLine = last_js (macd (macd_i ind));
          signalLine = last_js (signal (macd_i ind));
          middleBand = last_js (middle (bollinger ind))
      in if rsi ind = [] then Inl TypeError_toFixed
         else Inr \<lparr>action = act,
                   confidence = toFixed 3 conf,
                   bullish_signals = bullishSignals s,
                   bearish_signals = bearishSignals s,
                   reasons_d = reasons s,
                   summary = \<lparr>rsi_s = js_toFixed 2 (last_js (rsi ind)),
                              macd_signal_s = (if js_gt macdLine signalLine then bullish else bearish),
                              trend_s = direction (trend_a a),
                              bb_position = (if js_gt (currentPrice a) middleBand
                                             then upper_half else lower_half)\<rparr>,
                   risk_level = calculateRiskLevel conf ind,
                   suggested_stop_loss = calculateStopLoss (currentPrice a) ind act,
                   suggested_take_profit = calculateTakeProfit (currentPrice a) ind act\<rparr>)"

text \<open>
  An input of \<open>makeDecision\<close> for tests: one-element indicator arrays with a flat MACD,
  Bollinger bands at 1.08 and 1.09, no pattern, no level, a sideways trend and normal
  volume; the last RSI and the current price are the arguments.
\<close>

definition sample_analysis :: "jsnum \<Rightarrow> jsnum \<Rightarrow> analysis" where
  "sample_analysis rsi_last p =
     \<lparr>symbol = ''EURUSD'',
      indicators_a =
        \<lparr>sma20 = [Fin (1085 / 1000)], sma50 = [Fin (1085 / 1000)],
         ema12 = [Fin (1085 / 1000)], ema26 = [Fin (1085 / 1000)],
         macd_i = \<lparr>macd = [Fin 0], signal = [Fin 0], histogram = [Fin 0]\<rparr>,
         rsi = [rsi_last],
         bollinger = \<lparr>upper = [Fin (109 / 100)], middle = [Fin (1085 / 1000)],
                      lower = [Fin (108 / 100)]\<rparr>,
         stochastic = \<lparr>k = [Fin 50], d = [Fin 50]\<rparr>,
         atr = [Fin (5 / 10000)],
         williamsR = [Fin (- 50)]\<rparr>,
      patterns_a = \<lparr>doji = False, hammer = False, shootingStar = False, engulfing = False,
                    morning_star = False, evening_star = False\<rparr>,
      supportResistance = \<lparr>resistance = [], support = [], current_price = p\<rparr>,
      trend_a = \<lparr>direction = sideways, strength = Fin 0, sma20_position = below,
                 sma50_position = below\<rparr>,
      volumeAnalysis = \<lparr>average_volume = Fin 1000, current_volume = Fin 1000,
                        volume_ratio = Fin 1, is_high_volume = False\<rparr>,
      currentPrice = p\<rparr>"

section \<open>The database\<close>

text \<open>
  The tables of \<open>Database.migrate\<close> that the modelled code reads or writes, each a list
  of rows in insertion order, with the columns that code names (the surrogate \<open>id\<close>
  and the \<open>created_at\<close>/\<open>updated_at\<close> stamps are left out, except the date of
  \<open>trades.created_at\<close>).  Decimal columns hold exact values, timestamps are whole
  numbers, and strings are compared for equality (the collation of the tables ignores
  case; the symbols of the code are upper-case constants).  \<open>failures\<close> says, for
  each coming call of \<open>database.query\<close> in turn, whether it throws; past the end of
  the list no call throws.
\<close>

record market_data_row =
  md_symbol :: string
  md_timeframe :: string
  md_timestamp :: int
  open_price :: real
  high_price :: real
  low_price :: real
  close_price :: real
  md_volume :: "int option"

record ai_log_row =
  log_symbol :: string
  log_action :: action
  log_confidence :: real

datatype broker = deriv | iqoption | quotex

datatype user_status = active | inactive | suspended

datatype subscription = free | basic | premium

record user_row =
  u_id :: nat
  u_status :: user_status
  u_subscription_type :: subscription

record trading_settings_row =
  ts_user_id :: nat
  ts_broker :: broker
  ts_entry_amount :: real
  ts_max_daily_trades :: int
  ts_trading_active :: bool
  ts_ai_active :: bool

record trade_row =
  t_user_id :: nat
  t_trade_id :: string
  t_symbol :: string
  t_type :: action
  t_entry_price :: jsnum
  t_amount :: real
  t_stop_loss :: jsnum
  t_take_profit :: jsnum
  t_is_demo :: bool
  t_ai_confidence :: real
  t_created_date :: nat

record database =
  market_data :: "market_data_row list"
  ai_logs :: "ai_log_row list"
  users :: "user_row list"
  trading_settings :: "trading_settings_row list"
  trades :: "trade_row list"
  failures :: "bool list"

definition query_throws :: "database \<Rightarrow> bool" where
  "query_throws db = (case failures db of [] \<Rightarrow> False | b # bs \<Rightarrow> b)"

definition after_query :: "database \<Rightarrow> database" where
  "after_query db = db\<lparr>failures := tl (failures db)\<rparr>"

text \<open>
  \<open>SELECT ... FROM market_data WHERE symbol = ? AND timeframe = ? ORDER BY timestamp DESC
  LIMIT ?\<close>
\<close>

definition select_market_data :: "market_data_row list \<Rightarrow> string \<Rightarrow> string \<Rightarrow> nat \<Rightarrow> market_data_row list" where
  "select_market_data tbl symb tf limit =
     take limit (rev (sort_key md_timestamp
       (filter (\<lambda>r. md_symbol r = symb \<and> md_timeframe r = tf) tbl)))"

subsection \<open>getMarketData, generateSimulatedData, logAnalysis, analyzeMarket\<close>

text \<open>
  \<open>generateSimulatedData(symbol, limit)\<close>.  \<open>rnd\<close> lists the results of the calls of
  \<open>Math.random()\<close> in the order they are made, four in each iteration (variation, high,
  low, volume); \<open>now\<close> is \<open>Date.now()\<close>, taken to be the same in every
  iteration.  The last argument of the loop counts the iterations left.
\<close>

fun simulate :: "(nat \<Rightarrow> real) \<Rightarrow> int \<Rightarrow> nat \<Rightarrow> nat \<Rightarrow> real \<Rightarrow> nat \<Rightarrow> candle list" where
  "simulate rnd now limit i price 0 = []"
| "simulate rnd now limit i price (Suc n) =
     (let variation = (rnd (4 * i) - 1 / 2) * (2 / 1000);
          op = price;
          cl = op + variation;
          hi = max op cl + rnd (4 * i + 1) * (1 / 1000);
          lo = min op cl - rnd (4 * i + 2) * (1 / 1000);
          c = \<lparr>timestamp = now - (int limit - int i) * 5 * 60 * 1000,
               open_c = Fin (toFixed 5 op),
               high = Fin (toFixed 5 hi),
               low = Fin (toFixed 5 lo),
               close = Fin (toFixed 5 cl),
               volume = Fin (real_of_int \<lfloor>rnd (4 * i + 3) * 1000000\<rfloor>)\<rparr>
      in c # simulate rnd now limit (i + 1) cl n)"

definition generateSimulatedData :: "(nat \<Rightarrow> real) \<Rightarrow> int \<Rightarrow> nat \<Rightarrow> candle list" where
  "generateSimulatedData rnd now limit = simulate rnd now limit 0 (1085 / 1000) limit"

definition row_to_candle :: "market_data_row \<Rightarrow> candle" where
  "row_to_candle item =
     \<lparr>timestamp = md_timestamp item,
      open_c = Fin (open_price item),
      high = Fin (high_price item),
      low = Fin (low_price item),
      close = Fin (close_price item),
      volume = Fin (case md_volume item of None \<Rightarrow> 0 | Some v \<Rightarrow> real_of_int v)\<rparr>"

definition getMarketData ::
  "database \<Rightarrow> (nat \<Rightarrow> real) \<Rightarrow> int \<Rightarrow> string \<Rightarrow> string \<Rightarrow> nat \<Rightarrow> candle list \<times> database" where
  "getMarketData db rnd now symb tf limit =
     (if query_throws db then (generateSimulatedData rnd now limit, after_query db)
      else
        let data = select_market_data (market_data db) symb tf limit
        in if length data = 0 then (generateSimulatedData rnd now limit, after_query db)
           else (rev (map row_to_candle data), after_query db))"

definition logAnalysis :: "database \<Rightarrow> string \<Rightarrow> decision \<Rightarrow> database" where
  "logAnalysis db symb dec =
     (if query_throws db then after_query db
      else (after_query db)\<lparr>ai_logs := ai_logs db @
              [\<lparr>log_symbol = symb, log_action = action dec, log_confidence = confidence dec\<rparr>]\<rparr>)"

record error_result = outcome +
  reason :: string
  error :: js_error

text \<open>The object returned by the \<open>catch\<close> block of \<open>analyzeMarket\<close>.\<close>

definition failed :: "js_error \<Rightarrow> error_result" where
  "failed e =
     \<lparr>action = hold, confidence = 0,
      reason = ''Erro na an'' @ [CHR 0xC3, CHR 0xA1] @ ''lise'', error = e\<rparr>"

datatype analysis_result =
    is_Decision: Decision (the_decision: decision)
  | Failure (the_failure: error_result)

text \<open>Steps 2 to 6 of \<open>analyzeMarket\<close>: the argument it passes to \<open>makeDecision\<close>.\<close>

definition analyses :: "string \<Rightarrow> candle list \<Rightarrow> analysis" where
  "analyses symb marketData =
     (let ind = calculateIndicators marketData
      in \<lparr>symbol = symb,
          indicators_a = ind,
          patterns_a = detectPatterns marketData,
          supportResistance = findSupportResistance marketData,
          trend_a = analyzeTrend marketData ind,
          volumeAnalysis = analyzeVolume marketData,
          currentPrice = close (last marketData)\<rparr>)"

definition analyzeMarket ::
  "forex_ai \<Rightarrow> database \<Rightarrow> (nat \<Rightarrow> real) \<Rightarrow> int \<Rightarrow> string \<Rightarrow> string \<Rightarrow> analysis_result \<times> database" where
  "analyzeMarket ai db rnd now symb tf =
     (let (marketData, db1) = getMarketData db rnd now symb tf 200
      in if length marketData < 50 then (Failure (failed Dados_insuficientes_para_analise), db1)
         else
           case makeDecision ai (analyses symb marketData) of
             Inl e \<Rightarrow> (Failure (failed e), db1)
           | Inr dec \<Rightarrow> (Decision dec, logAnalysis db1 symb dec))"

section \<open>Ingestion pipeline (class DerivIntegration)\<close>

text \<open>The payload of a \<open>candle\<close> event, as \<open>DerivAPI.processSingleCandle\<close> builds it.\<close>

record candle_data =
  cd_symbol :: string
  cd_timestamp :: int
  cd_open :: real
  cd_high :: real
  cd_low :: real
  cd_close :: real

definition determineTimeframe :: "candle_data \<Rightarrow> string" where
  "determineTimeframe candleData = ''5m''"

text \<open>The columns of the key \<open>unique_candle\<close>.\<close>

definition unique_candle :: "market_data_row \<Rightarrow> string \<times> string \<times> int" where
  "unique_candle r = (md_symbol r, md_timeframe r, md_timestamp r)"

text \<open>
  \<open>INSERT INTO market_data ... ON DUPLICATE KEY UPDATE open_price = VALUES(open_price), ...\<close>:
  a row with the key of the new one is updated in its four price columns, and the new row
  is inserted when there is none.
\<close>

definition insert_or_update :: "market_data_row \<Rightarrow> market_data_row list \<Rightarrow> market_data_row list" where
  "insert_or_update new tbl =
     (if list_ex (\<lambda>r. unique_candle r = unique_candle new) tbl
      then map (\<lambda>r. if unique_candle r = unique_candle new
                      then r\<lparr>open_price := open_price new, high_price := high_price new,
                             low_price := low_price new, close_price := close_price new\<rparr>
                      else r) tbl
      else tbl @ [new])"

definition saveCandleToDB :: "database \<Rightarrow> candle_data \<Rightarrow> database" where
  "saveCandleToDB db candleData =
     (let tf = determineTimeframe candleData
      in if query_throws db then after_query db
         else (after_query db)\<lparr>market_data :=
                insert_or_update
                  \<lparr>md_symbol = cd_symbol candleData, md_timeframe = tf,
                   md_timestamp = cd_timestamp candleData,
                   open_price = cd_open candleData, high_price = cd_high candleData,
                   low_price = cd_low candleData, close_price = cd_close candleData,
                   md_volume = Some 0\<rparr>
                  (market_data db)\<rparr>)"

text \<open>
  What the process is given from outside: the two environment variables
  \<open>executeTrade\<close> reads, whether \<open>global.io\<close> is set, the date \<open>CURDATE()\<close>,
  and, for each call in turn, the identifier
  \<open>AUTO_${Date.now()}_${Math.random()...}\<close>, the contract identifier answered by
  \<open>derivAPI.buy\<close> (\<open>None\<close> when the call fails or answers without \<open>buy\<close>), the
  random numbers and the clock of an analysis.
\<close>

record env =
  demo_mode :: bool
  api_token :: bool
  has_io :: bool
  today :: nat
  new_trade_id :: "nat \<Rightarrow> string"
  deriv_buy :: "nat \<Rightarrow> string option"
  random :: "nat \<Rightarrow> nat \<Rightarrow> real"
  clock :: "nat \<Rightarrow> int"

record stats =
  ticksReceived :: nat
  candlesReceived :: nat
  aiAnalysisCount :: nat
  tradesExecuted :: nat

record cached_price =
  price :: jsnum
  bid :: jsnum
  ask :: jsnum

text \<open>The events sent through \<open>global.io\<close> by the modelled methods.\<close>

datatype io_event =
    candle_update string
  | ai_analysis string action
  | auto_trade_executed nat string action

text \<open>
  The state of the singleton, with the database it writes.  \<open>id_calls\<close> and
  \<open>buy_calls\<close> count the identifiers generated and the calls of \<open>derivAPI.buy\<close>
  so far; \<open>analysed\<close> is a history of the symbols \<open>analyzeWithAI\<close> was called with.
\<close>

record integration =
  forexAI :: forex_ai
  stats :: stats
  priceCache :: "string \<rightharpoonup> cached_price"
  io_events :: "io_event list"
  db :: database
  id_calls :: nat
  buy_calls :: nat
  analysed :: "string list"

text \<open>A row of the result of \<open>getActiveUsers\<close>.\<close>

record active_user =
  au_id :: nat
  au_subscription_type :: subscription
  au_trading_active :: bool
  au_ai_active :: bool
  au_entry_amount :: real
  au_max_daily_trades :: int
  au_broker :: broker

definition getActiveUsers :: "database \<Rightarrow> active_user list \<times> database" where
  "getActiveUsers d0 =
     (if query_throws d0 then ([], after_query d0)
      else
        (concat (map (\<lambda>u. map (\<lambda>ts. \<lparr>au_id = u_id u,
                                        au_subscription_type = u_subscription_type u,
                                        au_trading_active = ts_trading_active ts,
                                        au_ai_active = ts_ai_active ts,
                                        au_entry_amount = ts_entry_amount ts,
                                        au_max_daily_trades = ts_max_daily_trades ts,
                                        au_broker = ts_broker ts\<rparr>)
                          (filter (\<lambda>ts. ts_user_id ts = u_id u \<and> ts_trading_active ts \<and>
                                         ts_ai_active ts) (trading_settings d0)))
                  (filter (\<lambda>u. u_status u = active \<and>
                                (u_subscription_type u = basic \<or> u_subscription_type u = premium))
                     (users d0))),
         after_query d0))"

definition getUserDailyTrades :: "env \<Rightarrow> database \<Rightarrow> nat \<Rightarrow> int \<times> database" where
  "getUserDailyTrades e d0 userId =
     (if query_throws d0 then (0, after_query d0)
      else (int (length (filter (\<lambda>t. t_user_id t = userId \<and> t_created_date t = today e)
                           (trades d0))),
            after_query d0))"

text \<open>The percentage stops of \<open>DerivIntegration\<close>, used when the analysis suggests none.\<close>

definition calculateStopLoss_pct :: "jsnum \<Rightarrow> action \<Rightarrow> jsnum" where
  "calculateStopLoss_pct p act =
     (if act = buy then js_mul p (Fin (1 - 2 / 100)) else js_mul p (Fin (1 + 2 / 100)))"

definition calculateTakeProfit_pct :: "jsnum \<Rightarrow> action \<Rightarrow> jsnum" where
  "calculateTakeProfit_pct p act =
     (if act = buy then js_mul p (Fin (1 + 3 / 100)) else js_mul p (Fin (1 - 3 / 100)))"

text \<open>\<open>x || y\<close> where \<open>x\<close> is a number or \<open>null\<close>.\<close>

definition or_else :: "jsnum option \<Rightarrow> jsnum \<Rightarrow> jsnum" where
  "or_else x y = (case x of None \<Rightarrow> y | Some v \<Rightarrow> if v = NaN \<or> v = Fin 0 then y else v)"

text \<open>
  \<open>INSERT INTO trades\<close>: throws when the query fails or when \<open>trade_id\<close>, a
  \<open>UNIQUE\<close> column, is already there.
\<close>

definition insert_trade :: "database \<Rightarrow> trade_row \<Rightarrow> bool \<times> database" where
  "insert_trade d0 row =
     (if query_throws d0 \<or> t_trade_id row \<in> set (map t_trade_id (trades d0))
      then (False, after_query d0)
      else (True, (after_query d0)\<lparr>trades := trades d0 @ [row]\<rparr>))"

text \<open>\<open>executeRealDerivTrade\<close>: the contract identifier on success.\<close>

definition executeRealDerivTrade :: "env \<Rightarrow> integration \<Rightarrow> string option \<times> integration" where
  "executeRealDerivTrade e st = (deriv_buy e (buy_calls st), st\<lparr>buy_calls := buy_calls st + 1\<rparr>)"

text \<open>\<open>executeTrade\<close>: the \<open>trade_id\<close> of the result on success, \<open>None\<close> otherwise.\<close>

definition executeTrade ::
  "env \<Rightarrow> active_user \<Rightarrow> string \<Rightarrow> decision \<Rightarrow> integration \<Rightarrow> string option \<times> integration" where
  "executeTrade e user symb an st0 =
     (let tradeId = new_trade_id e (id_calls st0);
          st = st0\<lparr>id_calls := id_calls st0 + 1\<rparr>
      in case priceCache st symb of
           None \<Rightarrow> (None, st)
         | Some cached \<Rightarrow>
             let stopLoss = or_else (suggested_stop_loss an)
                              (calculateStopLoss_pct (price cached) (action an));
                 takeProfit = or_else (suggested_take_profit an)
                                (calculateTakeProfit_pct (price cached) (action an));
                 row = (\<lambda>tid demo.
                          \<lparr>t_user_id = au_id user, t_trade_id = tid, t_symbol = symb,
                           t_type = action an, t_entry_price = price cached,
                           t_amount = au_entry_amount user, t_stop_loss = stopLoss,
                           t_take_profit = takeProfit, t_is_demo = demo,
                           t_ai_confidence = confidence an, t_created_date = today e\<rparr>)
             in if au_broker user = deriv \<and> demo_mode e then
                  (let (ok, d1) = insert_trade (db st) (row tradeId True)
                   in (if ok then Some tradeId else None, st\<lparr>db := d1\<rparr>))
                else if au_broker user = deriv \<and> api_token e then
                  (case executeRealDerivTrade e st of
                     (None, st1) \<Rightarrow> (None, st1)
                   | (Some contract_id, st1) \<Rightarrow>
                       let (ok, d1) = insert_trade (db st1) (row contract_id False)
                       in (if ok then Some contract_id else None, st1\<lparr>db := d1\<rparr>))
                else (None, st))"

text \<open>The body of the loop of \<open>executeAutoTrade\<close>, for one user.\<close>

definition auto_trade_user :: "env \<Rightarrow> string \<Rightarrow> decision \<Rightarrow> active_user \<Rightarrow> integration \<Rightarrow> integration" where
  "auto_trade_user e symb an user st =
     (if \<not> au_trading_active user \<or> \<not> au_ai_active user then st
      else
        let (dailyTrades, d1) = getUserDailyTrades e (db st) (au_id user);
            st1 = st\<lparr>db := d1\<rparr>
        in if au_max_daily_trades user \<le> dailyTrades \<and> au_max_daily_trades user \<noteq> - 1 then st1
           else
             case executeTrade e user symb an st1 of
               (None, st2) \<Rightarrow> st2
             | (Some trade_id, st2) \<Rightarrow>
                 st2\<lparr>stats := (stats st2)\<lparr>tradesExecuted := tradesExecuted (stats st2) + 1\<rparr>,
                     io_events := io_events st2 @
                       (if has_io e then [auto_trade_executed (au_id user) symb (action an)] else [])\<rparr>)"

fun auto_trade_loop :: "env \<Rightarrow> string \<Rightarrow> decision \<Rightarrow> active_user list \<Rightarrow> integration \<Rightarrow> integration" where
  "auto_trade_loop e symb an [] st = st"
| "auto_trade_loop e symb an (user # rest) st =
     auto_trade_loop e symb an rest (auto_trade_user e symb an user st)"

definition executeAutoTrade :: "env \<Rightarrow> string \<Rightarrow> decision \<Rightarrow> integration \<Rightarrow> integration" where
  "executeAutoTrade e symb an st =
     (let (us, d1) = getActiveUsers (db st)
      in auto_trade_loop e symb an us (st\<lparr>db := d1\<rparr>))"

text \<open>
  \<open>analyzeWithAI\<close>.  A throwing \<open>INSERT INTO ai_logs\<close> leaves the method through its
  \<open>catch\<close>, before the trade and the event.  The object returned by a failed analysis
  has confidence 0, so it never passes the test for an automatic trade.
\<close>

definition analyzeWithAI :: "env \<Rightarrow> integration \<Rightarrow> string \<Rightarrow> integration" where
  "analyzeWithAI e st0 symb =
     (let n = aiAnalysisCount (stats st0);
          st = st0\<lparr>stats := (stats st0)\<lparr>aiAnalysisCount := n + 1\<rparr>,
                   analysed := analysed st0 @ [symb]\<rparr>;
          (res, d1) = analyzeMarket (forexAI st) (db st) (random e n) (clock e n) symb ''5m'';
          (act, conf) = (case res of Decision dec \<Rightarrow> (action dec, confidence dec)
                                   | Failure f \<Rightarrow> (action f, confidence f))
      in if query_throws d1 then st\<lparr>db := after_query d1\<rparr>
         else
           let d2 = (after_query d1)\<lparr>ai_logs := ai_logs d1 @
                      [\<lparr>log_symbol = symb, log_action = act, log_confidence = conf\<rparr>]\<rparr>;
               st2 = st\<lparr>db := d2\<rparr>;
               st3 = (case res of
                        Decision dec \<Rightarrow>
                          if 8 / 10 < confidence dec \<and> action dec \<noteq> hold
                          then executeAutoTrade e symb dec st2 else st2
                      | Failure f \<Rightarrow> st2)
           in st3\<lparr>io_events := io_events st3 @
                   (if has_io e then [ai_analysis symb act] else [])\<rparr>)"

definition shouldAnalyzeCandle :: "integration \<Rightarrow> candle_data \<Rightarrow> bool" where
  "shouldAnalyzeCandle st candleData = (candlesReceived (stats st) mod 5 = 0)"


definition process_candle :: "env \<Rightarrow> integration \<Rightarrow> candle_data \<Rightarrow> integration" where
  "process_candle e st candleData =
     (let st1 = st\<lparr>db := saveCandleToDB (db st) candleData\<rparr>;
          st2 = (if shouldAnalyzeCandle st1 candleData
                 then analyzeWithAI e st1 (cd_symbol candleData) else st1)
      in st2\<lparr>io_events := io_events st2 @
              (if has_io e then [candle_update (cd_symbol candleData)] else [])\<rparr>)"




section \<open>Feed client (class DerivAPI): reconnection\<close>

text \<open>The events the client emits on connectivity changes.\<close>

datatype api_event = connected | disconnected | error_event

text \<open>
  The fields of the client that the connection handlers use, and two histories: the
  delays of the reconnection timers set with \<open>setTimeout\<close>, and the number of times the
  message of the exhausted attempts was logged.
\<close>

record deriv_api =
  isConnected :: bool
  reconnectAttempts :: nat
  maxReconnectAttempts :: nat
  reconnectDelay :: nat
  emitted :: "api_event list"
  timers :: "nat list"
  max_reached_logged :: nat

definition new_DerivAPI :: deriv_api where
  "new_DerivAPI =
     \<lparr>isConnected = False, reconnectAttempts = 0, maxReconnectAttempts = 5,
      reconnectDelay = 5000, emitted = [], timers = [], max_reached_logged = 0\<rparr>"

definition handleReconnect :: "deriv_api \<Rightarrow> deriv_api" where
  "handleReconnect api =
     (if maxReconnectAttempts api \<le> reconnectAttempts api
      then api\<lparr>max_reached_logged := max_reached_logged api + 1\<rparr>
      else api\<lparr>reconnectAttempts := reconnectAttempts api + 1,
               timers := timers api @ [reconnectDelay api]\<rparr>)"

text \<open>
  The handlers that \<open>connect\<close> installs on the socket.  A reconnection timer that fires
  calls \<open>connect\<close>, which opens a new socket with the same handlers; what becomes of
  that socket reaches the client as the events below.
\<close>

datatype ws_event = ws_open | ws_close | ws_error

fun on_ws :: "deriv_api \<Rightarrow> ws_event \<Rightarrow> deriv_api" where
  "on_ws api ws_open =
     api\<lparr>isConnected := True, reconnectAttempts := 0, emitted := emitted api @ [connected]\<rparr>"
| "on_ws api ws_close =
     handleReconnect (api\<lparr>isConnected := False, emitted := emitted api @ [disconnected]\<rparr>)"
| "on_ws api ws_error = api\<lparr>emitted := emitted api @ [error_event]\<rparr>"

definition on_ws_events :: "deriv_api \<Rightarrow> ws_event list \<Rightarrow> deriv_api" where
  "on_ws_events api evs = foldl on_ws api evs"

text \<open>A disconnection followed by \<open>n\<close> reconnection attempts that all fail.\<close>

definition failed_attempts :: "nat \<Rightarrow> ws_event list" where
  "failed_attempts n = ws_close # concat (replicate n [ws_error, ws_close])"

section \<open>Auxiliary notions for the proofs\<close>

definition nonneg :: "signals \<Rightarrow> bool" where
  "nonneg s = (0 \<le> bullishSignals s \<and> 0 \<le> bearishSignals s \<and> 0 \<le> signalStrength s)"

text \<open>The decision that \<open>makeDecision\<close> returns for the RSI 25 and the price 1.10.\<close>

definition sample_decision :: decision where
  "sample_decision =
     \<lparr>action = hold, confidence = 533 / 1000, bullish_signals = 2, bearish_signals = 1,
      reasons_d = [RSI_oversold, Price_at_upper_Bollinger_Band],
      summary = \<lparr>rsi_s = Fin 25, macd_signal_s = bearish, trend_s = sideways,
                 bb_position = upper_half\<rparr>,
      risk_level = risk_medium, suggested_stop_loss = None, suggested_take_profit = None\<rparr>"

text \<open>
  The sample input with the price 1.085 between a support at 1.0849 and a resistance at
  1.0851.
\<close>

definition near_levels_analysis :: analysis where
  "near_levels_analysis =
     (sample_analysis (Fin 25) (Fin (1085 / 1000)))
       \<lparr>supportResistance :=
          \<lparr>resistance = [Fin (10851 / 10000)], support = [Fin (10849 / 10000)],
           current_price = Fin (1085 / 1000)\<rparr>\<rparr>"

text \<open>A database with no rows in which no query throws, and one with a single candle.\<close>

definition empty_database :: database where
  "empty_database =
     \<lparr>market_data = [], ai_logs = [], users = [], trading_settings = [], trades = [],
      failures = []\<rparr>"

definition sample_row :: market_data_row where
  "sample_row =
     \<lparr>md_symbol = ''EURUSD'', md_timeframe = ''5m'', md_timestamp = 1700000000,
      open_price = 1085 / 1000, high_price = 1086 / 1000, low_price = 1084 / 1000,
      close_price = 10855 / 10000, md_volume = Some 1500\<rparr>"

definition one_candle_database :: database where
  "one_candle_database = empty_database\<lparr>market_data := [sample_row]\<rparr>"

text \<open>A fixed sequence in \<open>[0, 1)\<close> standing for the results of \<open>Math.random()\<close>.\<close>

definition sample_random :: "nat \<Rightarrow> real" where
  "sample_random n = real ((7919 * n + 13) mod 1000) / 1000"

text \<open>Fifteen equal closing prices followed by a rise, a fall, a rise and a fall.\<close>

definition flat_start_series :: "real list" where
  "flat_start_series =
     [1085 / 1000, 1085 / 1000, 1085 / 1000, 1085 / 1000, 1085 / 1000,
      1085 / 1000, 1085 / 1000, 1085 / 1000, 1085 / 1000, 1085 / 1000,
      1085 / 1000, 1085 / 1000, 1085 / 1000, 1085 / 1000, 1085 / 1000,
      1086 / 1000, 10855 / 10000, 1087 / 1000, 10865 / 10000]"

text \<open>
  A number between 0 and 100, and the rises and falls between consecutive prices (the
  arrays \<open>gains\<close> and \<open>losses\<close> of \<open>RSI\<close> for finite prices).
\<close>

definition in_range :: "jsnum \<Rightarrow> bool" where
  "in_range v = (case v of Fin r \<Rightarrow> 0 \<le> r \<and> r \<le> 100 | _ \<Rightarrow> False)"

definition ups :: "real list \<Rightarrow> real list" where
  "ups xs = map (\<lambda>(prev, cur). max (cur - prev) 0) (zip xs (tl xs))"

definition downs :: "real list \<Rightarrow> real list" where
  "downs xs = map (\<lambda>(prev, cur). max (prev - cur) 0) (zip xs (tl xs))"

text \<open>The row that \<open>saveCandleToDB\<close> passes to the insert, and the update of its prices.\<close>

definition candle_row :: "candle_data \<Rightarrow> market_data_row" where
  "candle_row c =
     \<lparr>md_symbol = cd_symbol c, md_timeframe = determineTimeframe c,
      md_timestamp = cd_timestamp c,
      open_price = cd_open c, high_price = cd_high c,
      low_price = cd_low c, close_price = cd_close c,
      md_volume = Some 0\<rparr>"

definition set_prices :: "market_data_row \<Rightarrow> market_data_row \<Rightarrow> market_data_row" where
  "set_prices new r = r\<lparr>open_price := open_price new, high_price := high_price new,
                         low_price := low_price new, close_price := close_price new\<rparr>"

text \<open>Two writes of the candle of \<open>sample_row\<close>, with different prices.\<close>

definition first_write :: candle_data where
  "first_write =
     \<lparr>cd_symbol = ''EURUSD'', cd_timestamp = 1700000000, cd_open = 10851 / 10000,
      cd_high = 10862 / 10000, cd_low = 10843 / 10000, cd_close = 10857 / 10000\<rparr>"

definition second_write :: candle_data where
  "second_write =
     \<lparr>cd_symbol = ''EURUSD'', cd_timestamp = 1700000000, cd_open = 10851 / 10000,
      cd_high = 10870 / 10000, cd_low = 10843 / 10000, cd_close = 10866 / 10000\<rparr>"

text \<open>
  The state after the iteration of a user whose limit is reached, the trades of one user,
  and the number of them made today.
\<close>

definition skipped :: "integration \<Rightarrow> integration" where
  "skipped st = st\<lparr>db := after_query (db st)\<rparr>"

definition trades_of :: "nat \<Rightarrow> integration \<Rightarrow> trade_row list" where
  "trades_of uid st = filter (\<lambda>t. t_user_id t = uid) (trades (db st))"

definition daily_count :: "env \<Rightarrow> nat \<Rightarrow> integration \<Rightarrow> int" where
  "daily_count e uid st =
     int (length (filter (\<lambda>t. t_user_id t = uid \<and> t_created_date t = today e) (trades (db st))))"










text \<open>One failed reconnection attempt, and the client after its first disconnection.\<close>

definition failed_attempt :: "deriv_api \<Rightarrow> deriv_api" where
  "failed_attempt api = on_ws (on_ws api ws_error) ws_close"

definition after_first_close :: deriv_api where
  "after_first_close =
     \<lparr>isConnected = False, reconnectAttempts = 1, maxReconnectAttempts = 5,
      reconnectDelay = 5000, emitted = [disconnected], timers = [5000], max_reached_logged = 0\<rparr>"

text \<open>Two states with the same candle counter and the same history of analyses.\<close>

definition same_sampling :: "integration \<Rightarrow> integration \<Rightarrow> bool" where
  "same_sampling st st' =
     (candlesReceived (stats st') = candlesReceived (stats st) \<and> analysed st' = analysed st)"




section \<open>Simple moving average\<close>

lemma foldl_js_add_Fin: "foldl js_add (Fin a) (map Fin xs) = Fin (a + sum_list xs)"
  by (induction xs arbitrary: a) (auto simp: add.assoc)

lemma js_sum_Fin: "js_sum (map Fin xs) = Fin (sum_list xs)"
  by (simp add: js_sum_def foldl_js_add_Fin)




section \<open>The decision\<close>

lemma nonneg_add_bullish: "nonneg s \<Longrightarrow> 0 \<le> w \<Longrightarrow> nonneg (add_bullish w r s)"
  by (simp add: nonneg_def add_bullish_def)

lemma nonneg_add_bearish: "nonneg s \<Longrightarrow> 0 \<le> w \<Longrightarrow> nonneg (add_bearish w r s)"
  by (simp add: nonneg_def add_bearish_def)

lemma nonneg_rsi_signal: "nonneg s \<Longrightarrow> nonneg (rsi_signal a s)"
  by (simp add: rsi_signal_def Let_def nonneg_add_bullish nonneg_add_bearish)

lemma nonneg_macd_signal: "nonneg s \<Longrightarrow> nonneg (macd_signal a s)"
  by (simp add: macd_signal_def Let_def nonneg_add_bullish nonneg_add_bearish)

lemma nonneg_bollinger_signal: "nonneg s \<Longrightarrow> nonneg (bollinger_signal a s)"
  by (simp add: bollinger_signal_def Let_def nonneg_add_bullish nonneg_add_bearish)

lemma nonneg_trend_signal: "nonneg s \<Longrightarrow> nonneg (trend_signal a s)"
  by (simp add: trend_signal_def Let_def nonneg_add_bullish nonneg_add_bearish)

lemma nonneg_pattern_signal: "nonneg s \<Longrightarrow> nonneg (pattern_signal a s)"
  by (simp add: pattern_signal_def Let_def nonneg_add_bullish nonneg_add_bearish)

lemma nonneg_level_signal: "nonneg s \<Longrightarrow> nonneg (level_signal a s)"
  by (simp add: level_signal_def Let_def nonneg_add_bullish nonneg_add_bearish)

lemma nonneg_volume_signal: "nonneg s \<Longrightarrow> nonneg (volume_signal a s)"
  by (simp add: volume_signal_def nonneg_def)

lemma nonneg_collectSignals: "nonneg (collectSignals a)"
proof -
  have "nonneg \<lparr>bullishSignals = 0, bearishSignals = 0, signalStrength = 0, reasons = []\<rparr>"
    by (simp add: nonneg_def)
  then show ?thesis
    unfolding collectSignals_def
    by (intro nonneg_volume_signal nonneg_level_signal nonneg_pattern_signal nonneg_trend_signal
        nonneg_bollinger_signal nonneg_macd_signal nonneg_rsi_signal)
qed

lemma vote_nonneg: "nonneg s \<Longrightarrow> 0 \<le> snd (vote s)"
  by (auto simp: vote_def nonneg_def Let_def)

lemma computed_confidence_bounds:
  "0 \<le> computed_confidence a \<and> computed_confidence a \<le> 95 / 100"
  using vote_nonneg [OF nonneg_collectSignals, of a] by (simp add: computed_confidence_def)

lemma toFixed_3_bounds:
  assumes "0 \<le> c" "c \<le> 95 / 100"
  shows "0 \<le> toFixed 3 c \<and> toFixed 3 c \<le> 95 / 100"
proof -
  have "c * 1000 + 1 / 2 \<le> 950 + 1 / 2" using assms by simp
  then have "\<lfloor>c * 1000 + 1 / 2\<rfloor> \<le> \<lfloor>950 + 1 / 2 :: real\<rfloor>" by (rule floor_mono)
  moreover have "\<lfloor>950 + 1 / 2 :: real\<rfloor> = 950" by linarith
  ultimately have up: "\<lfloor>c * 1000 + 1 / 2\<rfloor> \<le> 950" by simp
  have "0 \<le> c * 1000 + 1 / 2" using assms by simp
  then have lo: "0 \<le> \<lfloor>c * 1000 + 1 / 2\<rfloor>" by simp
  have "real_of_int \<lfloor>c * 1000 + 1 / 2\<rfloor> \<le> 950" using up by linarith
  with lo assms show ?thesis by (simp add: toFixed_def)
qed


lemmas signal_defs = collectSignals_def rsi_signal_def macd_signal_def bollinger_signal_def
  trend_signal_def pattern_signal_def level_signal_def volume_signal_def add_bullish_def
  add_bearish_def last_js_def nth_js_def js_gt_def js_le_def js_ge_def

lemma sample_signals:
  "collectSignals (sample_analysis (Fin 25) (Fin (11 / 10))) =
     \<lparr>bullishSignals = 2, bearishSignals = 1, signalStrength = 0,
      reasons = [RSI_oversold, Price_at_upper_Bollinger_Band]\<rparr>"
  by (simp add: signal_defs sample_analysis_def)

lemma sample_computed_confidence:
  "computed_confidence (sample_analysis (Fin 25) (Fin (11 / 10))) = 8 / 15"
  by (simp add: computed_confidence_def sample_signals vote_def)

lemma toFixed_3_sample: "toFixed 3 (8 / 15) = 533 / 1000"
  by (simp add: toFixed_def)

lemma makeDecision_sample:
  "makeDecision (new_ForexAI None) (sample_analysis (Fin 25) (Fin (11 / 10))) = Inr sample_decision"
  by (simp add: makeDecision_def sample_computed_confidence toFixed_3_sample sample_signals
      Let_def new_ForexAI_def sample_decision_def vote_def)
     (simp add: sample_analysis_def calculateRiskLevel_def calculateStopLoss_def
      calculateTakeProfit_def last_js_def nth_js_def js_gt_def toFixed_def)

text \<open>
  C2.  Whatever the indicators, patterns, levels, trend, volume analysis and current price
  given to \<open>makeDecision\<close>, and whatever the threshold, the confidence of the decision it
  returns lies between 0 and 0.95.
\<close>

theorem makeDecision_confidence_bounds:
  assumes "makeDecision ai a = Inr dec"
  shows "0 \<le> confidence dec \<and> confidence dec \<le> 95 / 100"
proof -
  from assms have "confidence dec = toFixed 3 (computed_confidence a)"
    by (auto simp: makeDecision_def Let_def split: if_splits)
  then show ?thesis
    using toFixed_3_bounds computed_confidence_bounds by simp
qed

theorem makeDecision_confidence_bounds_witness:
  "makeDecision (new_ForexAI None) (sample_analysis (Fin 25) (Fin (11 / 10))) = Inr sample_decision \<and>
   0 \<le> confidence sample_decision \<and> confidence sample_decision \<le> 95 / 100"
  using makeDecision_confidence_bounds [OF makeDecision_sample] makeDecision_sample by simp




text \<open>
  With a threshold between the computed value and its rounding, the returned confidence
  is not even below the threshold: here \<open>2.5 / 3 * 0.8 = 0.6666...\<close> is below 0.6668,
  the action is \<open>hold\<close>, and the returned confidence is 0.667.
\<close>

lemma near_levels_signals:
  "collectSignals near_levels_analysis =
     \<lparr>bullishSignals = 5 / 2, bearishSignals = 1 / 2, signalStrength = 0,
      reasons = [RSI_oversold, Price_near_support_level, Price_near_resistance_level]\<rparr>"
  by (simp add: signal_defs near_levels_analysis_def sample_analysis_def near_def js_sub_def)

lemma near_levels_computed_confidence: "computed_confidence near_levels_analysis = 2 / 3"
  by (simp add: computed_confidence_def near_levels_signals vote_def)

lemma makeDecision_hold_above_threshold:
  "js_lt (Fin (computed_confidence near_levels_analysis)) (Fin (6668 / 10000)) \<and>
   map_sum id (\<lambda>dec. (action dec, confidence dec))
     (makeDecision \<lparr>confidence_threshold = Fin (6668 / 10000)\<rparr> near_levels_analysis) =
     Inr (hold, 667 / 1000) \<and>
   \<not> js_lt (Fin (667 / 1000)) (Fin (6668 / 10000))"
proof -
  have "rsi (indicators_a near_levels_analysis) = [Fin 25]"
    by (simp add: near_levels_analysis_def sample_analysis_def)
  moreover have "toFixed 3 (2 / 3) = 667 / 1000" by (simp add: toFixed_def)
  ultimately show ?thesis
    by (simp add: makeDecision_def Let_def near_levels_computed_confidence)
qed

section \<open>analyzeMarket and its data\<close>

lemma length_simulate: "length (simulate rnd now limit i p n) = n"
  by (induction n arbitrary: i p) (simp_all add: Let_def)

lemma length_generateSimulatedData: "length (generateSimulatedData rnd now limit) = limit"
  by (simp add: generateSimulatedData_def length_simulate)

lemma length_rsi_loop: "length (rsi_loop p g l xs) = length xs"
  by (induction xs arbitrary: g l) auto

lemma length_differences: "length (differences data) = length data - 1"
  by (simp add: differences_def)

lemma length_RSI: "length (RSI data p) = length data - 1 - p"
  by (simp add: RSI_def Let_def length_rsi_loop gains_of_def losses_of_def length_differences)

lemma rsi_analyses: "rsi (indicators_a (analyses symb data)) = RSI (map close data) 14"
  by (simp add: analyses_def calculateIndicators_def Let_def)

lemma makeDecision_Inr_iff: "(\<exists>dec. makeDecision ai a = Inr dec) \<longleftrightarrow> rsi (indicators_a a) \<noteq> []"
  by (simp add: makeDecision_def Let_def)

lemma makeDecision_analyses:
  assumes "16 \<le> length data"
  shows "\<exists>dec. makeDecision ai (analyses symb data) = Inr dec"
proof -
  have "length (RSI (map close data) 14) \<noteq> 0" using assms by (simp add: length_RSI)
  then have "rsi (indicators_a (analyses symb data)) \<noteq> []" by (simp add: rsi_analyses)
  then show ?thesis by (simp add: makeDecision_Inr_iff)
qed

lemma getMarketData_simulated:
  assumes "query_throws d0 \<or> select_market_data (market_data d0) symb tf limit = []"
  shows "fst (getMarketData d0 rnd now symb tf limit) = generateSimulatedData rnd now limit"
  using assms by (auto simp: getMarketData_def Let_def)

lemma analyzeMarket_simulated:
  assumes "query_throws d0 \<or> select_market_data (market_data d0) symb tf 200 = []"
  shows "\<exists>dec. makeDecision ai (analyses symb (generateSimulatedData rnd now 200)) = Inr dec \<and>
           fst (analyzeMarket ai d0 rnd now symb tf) = Decision dec"
proof -
  let ?sim = "generateSimulatedData rnd now 200"
  obtain dec where dec: "makeDecision ai (analyses symb ?sim) = Inr dec"
    using makeDecision_analyses [of ?sim ai symb] by (auto simp: length_generateSimulatedData)
  have "fst (getMarketData d0 rnd now symb tf 200) = ?sim"
    using assms by (rule getMarketData_simulated)
  then have "fst (analyzeMarket ai d0 rnd now symb tf) = Decision dec"
    using dec by (simp add: analyzeMarket_def split_beta length_generateSimulatedData)
  with dec show ?thesis by blast
qed

lemma length_select_market_data:
  "length (select_market_data tbl symb tf limit) =
     min limit (length (filter (\<lambda>r. md_symbol r = symb \<and> md_timeframe r = tf) tbl))"
  by (simp add: select_market_data_def min.commute)

text \<open>
  C1, as amended.  For every symbol and timeframe, when the query of \<open>getMarketData\<close>
  succeeds and the store holds at least one and fewer than 50 candles of that symbol and
  timeframe, \<open>analyzeMarket\<close> refuses to analyse: it returns the object with action
  \<open>hold\<close>, confidence 0 and the message of the insufficient-data error.
\<close>

theorem analyzeMarket_insufficient_data:
  assumes "\<not> query_throws d0"
    and "0 < length (filter (\<lambda>r. md_symbol r = symb \<and> md_timeframe r = tf) (market_data d0))"
    and "length (filter (\<lambda>r. md_symbol r = symb \<and> md_timeframe r = tf) (market_data d0)) < 50"
  shows "fst (analyzeMarket ai d0 rnd now symb tf) =
           Failure \<lparr>action = hold, confidence = 0,
                    reason = ''Erro na an'' @ [CHR 0xC3, CHR 0xA1] @ ''lise'',
                    error = Dados_insuficientes_para_analise\<rparr>"
proof -
  let ?n = "length (filter (\<lambda>r. md_symbol r = symb \<and> md_timeframe r = tf) (market_data d0))"
  have len: "length (select_market_data (market_data d0) symb tf 200) = ?n"
    using assms(3) by (simp add: length_select_market_data)
  with assms(2) have "select_market_data (market_data d0) symb tf 200 \<noteq> []" by auto
  with len have "length (fst (getMarketData d0 rnd now symb tf 200)) = ?n"
    using assms(1) by (simp add: getMarketData_def Let_def)
  then show ?thesis
    using assms(3) by (simp add: analyzeMarket_def split_beta failed_def)
qed

theorem analyzeMarket_insufficient_data_witness:
  "\<not> query_throws one_candle_database \<and>
   0 < length (filter (\<lambda>r. md_symbol r = ''EURUSD'' \<and> md_timeframe r = ''5m'')
                 (market_data one_candle_database)) \<and>
   length (filter (\<lambda>r. md_symbol r = ''EURUSD'' \<and> md_timeframe r = ''5m'')
             (market_data one_candle_database)) < 50 \<and>
   fst (analyzeMarket (new_ForexAI None) one_candle_database sample_random 1700000300000 ''EURUSD'' ''5m'') =
           Failure \<lparr>action = hold, confidence = 0,
                    reason = ''Erro na an'' @ [CHR 0xC3, CHR 0xA1] @ ''lise'',
                    error = Dados_insuficientes_para_analise\<rparr>"
proof -
  have 1: "\<not> query_throws one_candle_database"
    by (simp add: query_throws_def one_candle_database_def empty_database_def)
  have 2: "length (filter (\<lambda>r. md_symbol r = ''EURUSD'' \<and> md_timeframe r = ''5m'')
                 (market_data one_candle_database)) = 1"
    by (simp add: one_candle_database_def empty_database_def sample_row_def)
  from analyzeMarket_insufficient_data [of one_candle_database "''EURUSD''" "''5m''"
      "new_ForexAI None" sample_random 1700000300000] 1 2
  show ?thesis by simp
qed

text \<open>
  The claim as stated fails when no candle is available at all: over the empty store
  \<open>analyzeMarket\<close> analyses 200 simulated candles and returns a decision, not the
  insufficient-data object.
\<close>

theorem analyzeMarket_empty_store_decides:
  "length (filter (\<lambda>r. md_symbol r = ''EURUSD'' \<and> md_timeframe r = ''5m'')
             (market_data empty_database)) < 50 \<and>
   is_Decision (fst (analyzeMarket (new_ForexAI None) empty_database sample_random 1700000300000
                       ''EURUSD'' ''5m'')) \<and>
   fst (analyzeMarket (new_ForexAI None) empty_database sample_random 1700000300000 ''EURUSD'' ''5m'')
     \<noteq> Failure (failed Dados_insuficientes_para_analise)"
proof -
  have "select_market_data (market_data empty_database) ''EURUSD'' ''5m'' 200 = []"
    by (simp add: select_market_data_def empty_database_def)
  then obtain dec where
    "fst (analyzeMarket (new_ForexAI None) empty_database sample_random 1700000300000
            ''EURUSD'' ''5m'') = Decision dec"
    using analyzeMarket_simulated by blast
  then show ?thesis by (simp add: empty_database_def)
qed



section \<open>Relative strength index\<close>

lemmas RSI_defs = RSI_def gains_of_def losses_of_def differences_def slice_def js_sum_def
  js_sub_def js_gt_def rsi_value_def smooth_def

lemma differences_Fin:
  "differences (map Fin xs) = map (\<lambda>(prev, cur). Fin (cur - prev)) (zip xs (tl xs))"
proof -
  have "zip (map Fin xs) (tl (map Fin xs)) = map (\<lambda>(a, b). (Fin a, Fin b)) (zip xs (tl xs))"
    by (simp add: map_tl [symmetric] zip_map_map)
  then show ?thesis by (simp add: differences_def js_sub_def split_beta)
qed

lemma gains_of_Fin: "gains_of (map Fin xs) = map Fin (ups xs)"
  by (auto simp: gains_of_def differences_Fin ups_def js_gt_def max_def)

lemma losses_of_Fin: "losses_of (map Fin xs) = map Fin (downs xs)"
  by (auto simp: losses_of_def differences_Fin downs_def max_def)

lemma rsi_value_no_loss: "0 < g \<Longrightarrow> rsi_value (Fin g) (Fin 0) = Fin 100"
  by (simp add: rsi_value_def js_sub_def)

lemma rsi_value_in_range:
  assumes "0 \<le> g" "0 \<le> l" "0 < g + l"
  shows "in_range (rsi_value (Fin g) (Fin l))"
proof (cases "l = 0")
  case True
  with assms have "0 < g" by simp
  then show ?thesis using True by (simp add: rsi_value_no_loss in_range_def)
next
  case False
  with assms have l: "0 < l" by simp
  have q: "0 \<le> g / l" using assms(1) l by simp
  then have pos: "0 < 1 + g / l" by linarith
  have "100 / (1 + g / l) \<le> 100 / 1"
    by (rule divide_left_mono) (use q in simp_all)
  moreover have "0 \<le> 100 / (1 + g / l)" using pos by simp
  ultimately show ?thesis
    using False pos by (simp add: rsi_value_def js_sub_def in_range_def)
qed

lemma smooth_Fin:
  "0 < p \<Longrightarrow> smooth p (Fin a) (Fin x) = Fin ((a * (real p - 1) + x) / real p)"
  by (simp add: smooth_def)

lemma rsi_loop_in_range:
  assumes "2 \<le> p" "0 \<le> g" "0 \<le> l" "0 < g + l"
    and "\<forall>u \<in> set us. 0 \<le> u" "\<forall>x \<in> set ds. 0 \<le> x"
  shows "list_all in_range (rsi_loop p (Fin g) (Fin l) (zip (map Fin us) (map Fin ds)))"
  using assms
proof (induction us arbitrary: ds g l)
  case Nil
  then show ?case by simp
next
  case (Cons u us)
  show ?case
  proof (cases ds)
    case Nil
    then show ?thesis by simp
  next
    case (Cons x ds')
    from Cons.prems \<open>ds = x # ds'\<close> have nn: "0 \<le> u" "0 \<le> x" by auto
    have p: "0 < p" "0 \<le> real p - 1" "0 < real p - 1" using Cons.prems(1) by auto
    let ?g = "(g * (real p - 1) + u) / real p"
    let ?l = "(l * (real p - 1) + x) / real p"
    have g': "0 \<le> ?g" using Cons.prems(2) nn p by simp
    have l': "0 \<le> ?l" using Cons.prems(3) nn p by simp
    have "0 < (g + l) * (real p - 1)" using Cons.prems(4) p(3) by simp
    then have "0 < (g * (real p - 1) + u) + (l * (real p - 1) + x)"
      using nn by (simp add: algebra_simps)
    then have "0 < ((g * (real p - 1) + u) + (l * (real p - 1) + x)) / real p"
      using p(1) by simp
    then have s': "0 < ?g + ?l" by (simp add: add_divide_distrib)
    have rest: "list_all in_range (rsi_loop p (Fin ?g) (Fin ?l) (zip (map Fin us) (map Fin ds')))"
      using Cons.IH [OF Cons.prems(1) g' l' s'] Cons.prems(5,6) \<open>ds = x # ds'\<close> by simp
    have "in_range (rsi_value (Fin g) (Fin l))"
      using Cons.prems(2,3,4) by (rule rsi_value_in_range)
    with rest show ?thesis
      using \<open>ds = x # ds'\<close> p(1) by (simp add: smooth_Fin)
  qed
qed

lemma ups_nonneg: "\<forall>u \<in> set (ups xs). 0 \<le> u"
  by (auto simp: ups_def)

lemma downs_nonneg: "\<forall>u \<in> set (downs xs). 0 \<le> u"
  by (auto simp: downs_def)

lemma length_ups: "length (ups xs) = length xs - 1" "length (downs xs) = length xs - 1"
  by (simp_all add: ups_def downs_def)

lemma ups_downs_nth:
  assumes "Suc i < length xs"
  shows "ups xs ! i + downs xs ! i = \<bar>xs ! Suc i - xs ! i\<bar>"
proof -
  have "i < length (zip xs (tl xs))" using assms by simp
  moreover have "tl xs ! i = xs ! Suc i" using assms by (simp add: nth_tl)
  ultimately show ?thesis using assms by (simp add: ups_def downs_def max_def)
qed

lemma nth_le_sum_list:
  "\<forall>x \<in> set xs. (0::real) \<le> x \<Longrightarrow> i < length xs \<Longrightarrow> xs ! i \<le> sum_list xs"
proof (induction xs arbitrary: i)
  case Nil
  then show ?case by simp
next
  case (Cons x xs)
  show ?case
  proof (cases i)
    case 0
    have "0 \<le> sum_list xs" by (rule sum_list_nonneg) (use Cons.prems in simp)
    with 0 show ?thesis by simp
  next
    case (Suc j)
    with Cons.prems have "xs ! j \<le> sum_list xs" by (intro Cons.IH) simp_all
    moreover have "0 \<le> x" using Cons.prems by simp
    ultimately show ?thesis using Suc by simp
  qed
qed

lemma seed_positive:
  assumes "i < p" "Suc i < length xs" "xs ! i \<noteq> xs ! Suc i"
  shows "0 < sum_list (take p (ups xs)) + sum_list (take p (downs xs))"
proof -
  have iu: "i < length (take p (ups xs))" "i < length (take p (downs xs))"
    using assms by (simp_all add: length_ups)
  have u: "take p (ups xs) ! i \<le> sum_list (take p (ups xs))"
    by (rule nth_le_sum_list [OF _ iu(1)]) (use ups_nonneg in \<open>auto dest: in_set_takeD\<close>)
  have dn: "take p (downs xs) ! i \<le> sum_list (take p (downs xs))"
    by (rule nth_le_sum_list [OF _ iu(2)]) (use downs_nonneg in \<open>auto dest: in_set_takeD\<close>)
  have "take p (ups xs) ! i + take p (downs xs) ! i = \<bar>xs ! Suc i - xs ! i\<bar>"
    using assms by (simp add: ups_downs_nth)
  moreover have "0 < \<bar>xs ! Suc i - xs ! i\<bar>" using assms(3) by simp
  ultimately show ?thesis using u dn by linarith
qed

text \<open>
  Where the claim of C5 does hold: for a period of at least 2 and finite prices of which the
  first \<open>period + 1\<close> are not all equal, every value of \<open>RSI\<close> is a number between
  0 and 100 (and it is 100 when the average loss is 0, by \<open>rsi_value_no_loss\<close>).
\<close>

lemma RSI_in_range:
  assumes "2 \<le> p" and "\<exists>i<p. Suc i < length xs \<and> xs ! i \<noteq> xs ! Suc i"
  shows "list_all in_range (RSI (map Fin xs) p)"
proof -
  have p: "0 < real p" using assms(1) by simp
  let ?g = "sum_list (take p (ups xs)) / real p"
  let ?l = "sum_list (take p (downs xs)) / real p"
  have sg: "0 \<le> sum_list (take p (ups xs))"
    by (rule sum_list_nonneg) (use ups_nonneg in \<open>auto dest: in_set_takeD\<close>)
  have sl: "0 \<le> sum_list (take p (downs xs))"
    by (rule sum_list_nonneg) (use downs_nonneg in \<open>auto dest: in_set_takeD\<close>)
  have g: "0 \<le> ?g" and l: "0 \<le> ?l" using sg sl p by simp_all
  from assms(2) obtain i where "i < p" "Suc i < length xs" "xs ! i \<noteq> xs ! Suc i" by blast
  then have "0 < sum_list (take p (ups xs)) + sum_list (take p (downs xs))"
    by (rule seed_positive)
  then have "0 < (sum_list (take p (ups xs)) + sum_list (take p (downs xs))) / real p"
    using p by simp
  then have s: "0 < ?g + ?l" by (simp add: add_divide_distrib)
  have "RSI (map Fin xs) p =
      rsi_loop p (Fin ?g) (Fin ?l) (zip (map Fin (drop p (ups xs))) (map Fin (drop p (downs xs))))"
    using p by (simp add: RSI_def gains_of_Fin losses_of_Fin slice_def take_map drop_map js_sum_Fin)
  moreover have "list_all in_range
      (rsi_loop p (Fin ?g) (Fin ?l) (zip (map Fin (drop p (ups xs))) (map Fin (drop p (downs xs)))))"
    by (rule rsi_loop_in_range [OF assms(1) g l s])
       (use ups_nonneg downs_nonneg in \<open>auto dest: in_set_dropD\<close>)
  ultimately show ?thesis by simp
qed

text \<open>
  C5 fails on the code.  The series \<open>flat_start_series\<close> has 19 prices, with rises and
  falls, yet its first 15 closes are equal, so the first window has average gain 0 and
  average loss 0: \<open>RSI\<close> divides \<open>0 / 0\<close> and its first value is \<open>NaN\<close>,
  where the claim demands a number, namely 100.
\<close>

theorem RSI_flat_window_is_NaN:
  "RSI (map Fin flat_start_series) 14 = [NaN, Fin 100, Fin 65, Fin (23150 / 277)]"
  by (simp add: flat_start_series_def RSI_defs)

section \<open>The candle store\<close>

lemma saveCandleToDB_market_data:
  "\<not> query_throws d0 \<Longrightarrow>
   market_data (saveCandleToDB d0 c) = insert_or_update (candle_row c) (market_data d0)"
  by (simp add: saveCandleToDB_def candle_row_def Let_def after_query_def)

lemma saveCandleToDB_failures: "failures (saveCandleToDB d0 c) = tl (failures d0)"
  by (simp add: saveCandleToDB_def Let_def after_query_def)

lemma insert_or_update_alt:
  "insert_or_update new tbl =
     (if unique_candle new \<in> unique_candle ` set tbl
      then map (\<lambda>r. if unique_candle r = unique_candle new then set_prices new r else r) tbl
      else tbl @ [new])"
proof -
  have "list_ex (\<lambda>r. unique_candle r = unique_candle new) tbl
      \<longleftrightarrow> unique_candle new \<in> unique_candle ` set tbl"
    by (induction tbl) auto
  then show ?thesis by (simp add: insert_or_update_def set_prices_def)
qed

lemma unique_candle_set_prices [simp]: "unique_candle (set_prices new r) = unique_candle r"
  by (simp add: unique_candle_def set_prices_def)

lemma keys_update:
  "map unique_candle (map (\<lambda>r. if unique_candle r = key then set_prices new r else r) tbl)
     = map unique_candle tbl"
  by (induction tbl) auto

lemma keys_insert_or_update:
  "map unique_candle (insert_or_update new tbl) =
     (if unique_candle new \<in> unique_candle ` set tbl then map unique_candle tbl
      else map unique_candle tbl @ [unique_candle new])"
  by (simp add: insert_or_update_alt keys_update)

lemma distinct_insert_or_update:
  "distinct (map unique_candle tbl) \<Longrightarrow> distinct (map unique_candle (insert_or_update new tbl))"
  by (simp add: keys_insert_or_update)

lemma key_present_after: "unique_candle new \<in> unique_candle ` set (insert_or_update new tbl)"
proof -
  have "unique_candle new \<in> set (map unique_candle (insert_or_update new tbl))"
    by (simp add: keys_insert_or_update)
  then show ?thesis by simp
qed

lemma filter_key_distinct:
  "distinct (map unique_candle tbl) \<Longrightarrow>
   filter (\<lambda>r. unique_candle r = key) tbl =
     (case find (\<lambda>r. unique_candle r = key) tbl of None \<Rightarrow> [] | Some r \<Rightarrow> [r])"
proof (induction tbl)
  case Nil
  then show ?case by simp
next
  case (Cons r tbl)
  show ?case
  proof (cases "unique_candle r = key")
    case True
    with Cons.prems have "key \<notin> unique_candle ` set tbl" by auto
    then have "filter (\<lambda>r. unique_candle r = key) tbl = []"
      by (auto simp: filter_empty_conv)
    with True show ?thesis by simp
  next
    case False
    with Cons show ?thesis by simp
  qed
qed

lemma find_insert_or_update:
  "find (\<lambda>r. unique_candle r = unique_candle new) (insert_or_update new tbl) =
     Some (case find (\<lambda>r. unique_candle r = unique_candle new) tbl of
             None \<Rightarrow> new | Some r \<Rightarrow> set_prices new r)"
proof (induction tbl)
  case Nil
  then show ?case by (simp add: insert_or_update_alt)
next
  case (Cons r tbl)
  show ?case
  proof (cases "unique_candle r = unique_candle new")
    case True
    then show ?thesis by (simp add: insert_or_update_alt)
  next
    case False
    with Cons show ?thesis by (simp add: insert_or_update_alt split: if_splits)
  qed
qed

lemma filter_other_update:
  "key \<noteq> unique_candle new \<Longrightarrow>
   filter (\<lambda>r. unique_candle r = key)
     (map (\<lambda>r. if unique_candle r = unique_candle new then set_prices new r else r) tbl) =
   filter (\<lambda>r. unique_candle r = key) tbl"
  by (induction tbl) auto

lemma filter_other_insert_or_update:
  "key \<noteq> unique_candle new \<Longrightarrow>
   filter (\<lambda>r. unique_candle r = key) (insert_or_update new tbl) =
   filter (\<lambda>r. unique_candle r = key) tbl"
  by (simp add: insert_or_update_alt filter_other_update)

lemma set_prices_idem: "set_prices new (set_prices new r) = set_prices new r"
  by (simp add: set_prices_def)

lemma set_prices_self: "set_prices new new = new"
  by (simp add: set_prices_def)

lemma insert_or_update_idem:
  "insert_or_update new (insert_or_update new tbl) = insert_or_update new tbl"
proof (cases "unique_candle new \<in> unique_candle ` set tbl")
  case True
  let ?f = "\<lambda>r. if unique_candle r = unique_candle new then set_prices new r else r"
  have 1: "insert_or_update new tbl = map ?f tbl" using True by (simp add: insert_or_update_alt)
  have "unique_candle new \<in> unique_candle ` set (map ?f tbl)"
    using key_present_after [of new tbl] by (simp only: 1)
  then have "insert_or_update new (map ?f tbl) = map ?f (map ?f tbl)"
    by (simp only: insert_or_update_alt if_True)
  also have "\<dots> = map ?f tbl" by (simp add: set_prices_idem)
  finally show ?thesis by (simp only: 1)
next
  case False
  let ?f = "\<lambda>r. if unique_candle r = unique_candle new then set_prices new r else r"
  have 1: "insert_or_update new tbl = tbl @ [new]" using False by (simp add: insert_or_update_alt)
  have "unique_candle new \<in> unique_candle ` set (tbl @ [new])" by simp
  then have "insert_or_update new (tbl @ [new]) = map ?f (tbl @ [new])"
    by (simp only: insert_or_update_alt if_True)
  also have "\<dots> = map ?f tbl @ [new]" by (simp add: set_prices_self)
  also have "map ?f tbl = tbl"
  proof (rule map_idI)
    fix x assume "x \<in> set tbl"
    with False have "unique_candle x \<noteq> unique_candle new" by (metis imageI)
    then show "?f x = x" by simp
  qed
  finally show ?thesis by (simp only: 1)
qed

text \<open>The unique key survives any sequence of writes, failed ones included.\<close>

lemma distinct_after_saves:
  "distinct (map unique_candle (market_data d0)) \<Longrightarrow>
   distinct (map unique_candle (market_data (foldl saveCandleToDB d0 cs)))"
proof (induction cs arbitrary: d0)
  case Nil
  then show ?case by simp
next
  case (Cons c cs)
  have "distinct (map unique_candle (market_data (saveCandleToDB d0 c)))"
  proof (cases "query_throws d0")
    case True
    then show ?thesis using Cons.prems by (simp add: saveCandleToDB_def after_query_def Let_def)
  next
    case False
    then show ?thesis using Cons.prems
      by (simp add: saveCandleToDB_market_data distinct_insert_or_update)
  qed
  then show ?case using Cons.IH by simp
qed

lemma query_throws_saveCandleToDB:
  "query_throws (saveCandleToDB d0 c) = query_throws (after_query d0)"
  by (simp add: query_throws_def saveCandleToDB_failures after_query_def)

lemma unique_candle_candle_row:
  "unique_candle (candle_row c) = (cd_symbol c, ''5m'', cd_timestamp c)"
  by (simp add: unique_candle_def candle_row_def determineTimeframe_def)

text \<open>
  C7.  Writing a candle twice under the same symbol and timestamp (both writes succeeding,
  over a table that obeys its unique key) leaves the key \<open>(symbol, timeframe, timestamp)\<close>
  unduplicated and exactly one row for it, which holds the open, high, low and close of the
  second write; the volume of that row is the one it had before the two writes (0 when the
  first write inserted it).  Writing the same candle a second time changes nothing.
\<close>

theorem saveCandleToDB_idempotent:
  assumes uniq: "distinct (map unique_candle (market_data d0))"
    and same: "cd_symbol c2 = cd_symbol c1" "cd_timestamp c2 = cd_timestamp c1"
    and ok: "\<not> query_throws d0" "\<not> query_throws (saveCandleToDB d0 c1)"
  shows "distinct (map unique_candle (market_data (saveCandleToDB (saveCandleToDB d0 c1) c2))) \<and>
         (\<exists>r. filter (\<lambda>r. unique_candle r = (cd_symbol c1, ''5m'', cd_timestamp c1))
                  (market_data (saveCandleToDB (saveCandleToDB d0 c1) c2)) = [r] \<and>
              open_price r = cd_open c2 \<and> high_price r = cd_high c2 \<and>
              low_price r = cd_low c2 \<and> close_price r = cd_close c2 \<and>
              md_volume r =
                (case find (\<lambda>r. unique_candle r = (cd_symbol c1, ''5m'', cd_timestamp c1))
                        (market_data d0)
                 of None \<Rightarrow> Some 0 | Some r0 \<Rightarrow> md_volume r0)) \<and>
         market_data (saveCandleToDB (saveCandleToDB d0 c2) c2) = market_data (saveCandleToDB d0 c2)"
proof -
  let ?key = "(cd_symbol c1, ''5m'', cd_timestamp c1)"
  let ?t0 = "market_data d0"
  let ?t1 = "insert_or_update (candle_row c1) ?t0"
  let ?t2 = "insert_or_update (candle_row c2) ?t1"
  have k1: "unique_candle (candle_row c1) = ?key" by (simp add: unique_candle_candle_row)
  have k2: "unique_candle (candle_row c2) = ?key" using same by (simp add: unique_candle_candle_row)
  have m2: "market_data (saveCandleToDB (saveCandleToDB d0 c1) c2) = ?t2"
    using ok by (simp add: saveCandleToDB_market_data)
  have d1: "distinct (map unique_candle ?t1)" using uniq by (rule distinct_insert_or_update)
  then have d2: "distinct (map unique_candle ?t2)" by (rule distinct_insert_or_update)
  have f1: "find (\<lambda>r. unique_candle r = ?key) ?t1 =
      Some (case find (\<lambda>r. unique_candle r = ?key) ?t0 of
              None \<Rightarrow> candle_row c1 | Some r \<Rightarrow> set_prices (candle_row c1) r)"
    using find_insert_or_update [of "candle_row c1" ?t0] by (simp add: k1)
  let ?r1 = "case find (\<lambda>r. unique_candle r = ?key) ?t0 of
              None \<Rightarrow> candle_row c1 | Some r \<Rightarrow> set_prices (candle_row c1) r"
  have f2: "find (\<lambda>r. unique_candle r = ?key) ?t2 = Some (set_prices (candle_row c2) ?r1)"
    using find_insert_or_update [of "candle_row c2" ?t1] by (simp add: k2 f1)
  have flt: "filter (\<lambda>r. unique_candle r = ?key) ?t2 = [set_prices (candle_row c2) ?r1]"
    using filter_key_distinct [OF d2, of ?key] by (simp add: f2)
  have vol: "md_volume (set_prices (candle_row c2) ?r1) =
      (case find (\<lambda>r. unique_candle r = ?key) ?t0 of None \<Rightarrow> Some 0 | Some r0 \<Rightarrow> md_volume r0)"
    by (simp add: set_prices_def candle_row_def split: option.split)
  have prices: "open_price (set_prices (candle_row c2) ?r1) = cd_open c2"
    "high_price (set_prices (candle_row c2) ?r1) = cd_high c2"
    "low_price (set_prices (candle_row c2) ?r1) = cd_low c2"
    "close_price (set_prices (candle_row c2) ?r1) = cd_close c2"
    by (simp_all add: set_prices_def candle_row_def)
  have idem: "market_data (saveCandleToDB (saveCandleToDB d0 c2) c2) = market_data (saveCandleToDB d0 c2)"
  proof -
    have "\<not> query_throws (saveCandleToDB d0 c2)"
      using ok(2) by (simp add: query_throws_saveCandleToDB)
    then show ?thesis using ok(1) by (simp add: saveCandleToDB_market_data insert_or_update_idem)
  qed
  from d2 flt vol prices idem show ?thesis unfolding m2 by blast
qed

theorem saveCandleToDB_idempotent_witness:
  "distinct (map unique_candle (market_data one_candle_database)) \<and>
   cd_symbol second_write = cd_symbol first_write \<and>
   cd_timestamp second_write = cd_timestamp first_write \<and>
   \<not> query_throws one_candle_database \<and>
   \<not> query_throws (saveCandleToDB one_candle_database first_write) \<and>
   market_data (saveCandleToDB (saveCandleToDB one_candle_database first_write) second_write) =
     [sample_row\<lparr>open_price := 10851 / 10000, high_price := 10870 / 10000,
                  low_price := 10843 / 10000, close_price := 10866 / 10000\<rparr>] \<and>
   md_volume sample_row = Some 1500 \<and>
   distinct (map unique_candle
     (market_data (saveCandleToDB (saveCandleToDB one_candle_database first_write) second_write))) \<and>
   market_data (saveCandleToDB (saveCandleToDB one_candle_database second_write) second_write) =
     market_data (saveCandleToDB one_candle_database second_write)"
proof -
  have h1: "distinct (map unique_candle (market_data one_candle_database))"
    by (simp add: one_candle_database_def empty_database_def)
  have h2: "cd_symbol second_write = cd_symbol first_write"
    "cd_timestamp second_write = cd_timestamp first_write"
    by (simp_all add: first_write_def second_write_def)
  have h3: "\<not> query_throws one_candle_database"
    by (simp add: query_throws_def one_candle_database_def empty_database_def)
  have h4: "\<not> query_throws (saveCandleToDB one_candle_database first_write)"
    by (simp add: query_throws_def saveCandleToDB_failures
        one_candle_database_def empty_database_def)
  have tbl: "market_data (saveCandleToDB (saveCandleToDB one_candle_database first_write) second_write) =
     [sample_row\<lparr>open_price := 10851 / 10000, high_price := 10870 / 10000,
                  low_price := 10843 / 10000, close_price := 10866 / 10000\<rparr>]"
    using h3 h4
    by (simp add: saveCandleToDB_market_data insert_or_update_def candle_row_def unique_candle_def
        determineTimeframe_def one_candle_database_def empty_database_def sample_row_def
        first_write_def second_write_def)
  have vol: "md_volume sample_row = Some 1500" by (simp add: sample_row_def)
  from saveCandleToDB_idempotent [OF h1 h2 h3 h4] h1 h2 h3 h4 tbl vol
  show ?thesis by blast
qed

section \<open>The daily limit of automatic trades\<close>

lemma snd_getUserDailyTrades: "snd (getUserDailyTrades e d0 uid) = after_query d0"
  by (simp add: getUserDailyTrades_def)

lemma auto_trade_user_capped:
  assumes "au_max_daily_trades user \<le> fst (getUserDailyTrades e (db st) (au_id user))"
    and "au_max_daily_trades user \<noteq> - 1"
  shows "auto_trade_user e symb an user st =
           (if au_trading_active user \<and> au_ai_active user then skipped st else st)"
  using assms by (simp add: auto_trade_user_def split_beta snd_getUserDailyTrades skipped_def)




text \<open>
  The whole cycle, when no query throws: a user all of whose rows in the result of
  \<open>getActiveUsers\<close> have the limit reached has the same trades after
  \<open>executeAutoTrade\<close> as before, whatever is traded for the other users.
\<close>

lemma insert_trade_trades:
  "trades (snd (insert_trade d0 row)) = trades d0 \<or> trades (snd (insert_trade d0 row)) = trades d0 @ [row]"
  by (simp add: insert_trade_def after_query_def)

lemma insert_trade_failures: "failures (snd (insert_trade d0 row)) = tl (failures d0)"
  by (simp add: insert_trade_def after_query_def)

lemma executeTrade_trades_of:
  assumes "au_id user \<noteq> uid"
  shows "trades_of uid (snd (executeTrade e user symb an st)) = trades_of uid st"
proof -
  have *: "filter (\<lambda>t. t_user_id t = uid) (trades (snd (insert_trade d0 row))) =
           filter (\<lambda>t. t_user_id t = uid) (trades d0)" if "t_user_id row \<noteq> uid" for d0 row
    using insert_trade_trades [of d0 row] that by auto
  show ?thesis
    using assms
    by (auto simp: executeTrade_def Let_def trades_of_def split_beta executeRealDerivTrade_def *
        split: option.splits)
qed

lemma executeTrade_failures_Nil:
  "failures (db st) = [] \<Longrightarrow> failures (db (snd (executeTrade e user symb an st))) = []"
  by (auto simp: executeTrade_def Let_def split_beta executeRealDerivTrade_def insert_trade_failures
      split: option.splits)


lemma daily_count_trades_of:
  "trades_of uid st' = trades_of uid st \<Longrightarrow> daily_count e uid st' = daily_count e uid st"
proof -
  have "filter (\<lambda>t. t_user_id t = uid \<and> t_created_date t = today e) (trades (db s)) =
        filter (\<lambda>t. t_created_date t = today e) (trades_of uid s)" for s
    by (simp add: trades_of_def conj_commute)
  then show "trades_of uid st' = trades_of uid st \<Longrightarrow> daily_count e uid st' = daily_count e uid st"
    by (simp add: daily_count_def)
qed

lemma getUserDailyTrades_no_failure:
  "failures d0 = [] \<Longrightarrow>
   getUserDailyTrades e d0 uid =
     (int (length (filter (\<lambda>t. t_user_id t = uid \<and> t_created_date t = today e) (trades d0))), d0)"
  by (simp add: getUserDailyTrades_def query_throws_def after_query_def)

lemma db_auto_trade_user:
  "db (auto_trade_user e symb an user st) = db st \<or>
   db (auto_trade_user e symb an user st) = after_query (db st) \<or>
   db (auto_trade_user e symb an user st) =
     db (snd (executeTrade e user symb an (st\<lparr>db := after_query (db st)\<rparr>)))"
  by (auto simp: auto_trade_user_def Let_def snd_getUserDailyTrades split_beta
      split: prod.split option.split)

lemma auto_trade_user_other:
  assumes "au_id user \<noteq> uid"
  shows "trades_of uid (auto_trade_user e symb an user st) = trades_of uid st"
proof -
  have "trades_of uid (snd (executeTrade e user symb an (st\<lparr>db := after_query (db st)\<rparr>)))
      = trades_of uid (st\<lparr>db := after_query (db st)\<rparr>)"
    using assms by (rule executeTrade_trades_of)
  then show ?thesis
    using db_auto_trade_user [of e symb an user st]
    by (auto simp: trades_of_def after_query_def)
qed

lemma auto_trade_user_failures_Nil:
  assumes "failures (db st) = []"
  shows "failures (db (auto_trade_user e symb an user st)) = []"
proof -
  have "failures (db (st\<lparr>db := after_query (db st)\<rparr>)) = []"
    using assms by (simp add: after_query_def)
  then have "failures (db (snd (executeTrade e user symb an (st\<lparr>db := after_query (db st)\<rparr>)))) = []"
    by (rule executeTrade_failures_Nil)
  then show ?thesis
    using assms db_auto_trade_user [of e symb an user st]
    by (auto simp: after_query_def)
qed

lemma auto_trade_loop_capped_unchanged:
  assumes "failures (db st) = []"
    and "\<forall>u \<in> set us. au_id u = uid \<longrightarrow>
           au_max_daily_trades u \<le> daily_count e uid st \<and> au_max_daily_trades u \<noteq> - 1"
  shows "trades_of uid (auto_trade_loop e symb an us st) = trades_of uid st"
  using assms
proof (induction us arbitrary: st)
  case Nil
  then show ?case by simp
next
  case (Cons u us)
  let ?st' = "auto_trade_user e symb an u st"
  have same: "trades_of uid ?st' = trades_of uid st"
  proof (cases "au_id u = uid")
    case True
    with Cons.prems have cap: "au_max_daily_trades u \<le> daily_count e uid st"
      "au_max_daily_trades u \<noteq> - 1" by auto
    have "fst (getUserDailyTrades e (db st) (au_id u)) = daily_count e uid st"
      using Cons.prems(1) True by (simp add: getUserDailyTrades_no_failure daily_count_def)
    with cap have "?st' = (if au_trading_active u \<and> au_ai_active u then skipped st else st)"
      by (intro auto_trade_user_capped) simp_all
    then show ?thesis by (simp add: trades_of_def skipped_def after_query_def)
  next
    case False
    then show ?thesis by (rule auto_trade_user_other)
  qed
  have nofail: "failures (db ?st') = []" using Cons.prems(1) by (rule auto_trade_user_failures_Nil)
  have "trades_of uid (auto_trade_loop e symb an us ?st') = trades_of uid ?st'"
  proof (rule Cons.IH [OF nofail])
    show "\<forall>u\<in>set us. au_id u = uid \<longrightarrow>
        au_max_daily_trades u \<le> daily_count e uid ?st' \<and> au_max_daily_trades u \<noteq> - 1"
      using Cons.prems(2) daily_count_trades_of [OF same, of e] by simp
  qed
  with same show ?case by simp
qed

lemma executeAutoTrade_capped_unchanged:
  assumes "failures (db st) = []"
    and "\<forall>u \<in> set (fst (getActiveUsers (db st))). au_id u = uid \<longrightarrow>
           au_max_daily_trades u \<le> daily_count e uid st \<and> au_max_daily_trades u \<noteq> - 1"
  shows "trades_of uid (executeAutoTrade e symb an st) = trades_of uid st"
proof -
  have d1: "snd (getActiveUsers (db st)) = db st"
    using assms(1) by (simp add: getActiveUsers_def query_throws_def after_query_def)
  have "st\<lparr>db := db st\<rparr> = st" by simp
  then show ?thesis
    using auto_trade_loop_capped_unchanged [OF assms(1), of "fst (getActiveUsers (db st))" uid e symb an]
      assms(2) by (simp add: executeAutoTrade_def split_beta d1)
qed

section \<open>Reconnection\<close>

lemma on_ws_events_Cons: "on_ws_events api (ev # evs) = on_ws_events (on_ws api ev) evs"
  by (simp add: on_ws_events_def)

lemma on_ws_events_Nil: "on_ws_events api [] = api"
  by (simp add: on_ws_events_def)

lemma on_ws_events_append:
  "on_ws_events api (evs @ evs') = on_ws_events (on_ws_events api evs) evs'"
  by (simp add: on_ws_events_def)

lemma config_on_ws:
  "maxReconnectAttempts (on_ws api ev) = maxReconnectAttempts api \<and>
   reconnectDelay (on_ws api ev) = reconnectDelay api"
  by (cases ev) (simp_all add: handleReconnect_def)

lemma failed_attempt_exhausted:
  assumes "reconnectAttempts api = maxReconnectAttempts api"
  shows "reconnectAttempts (failed_attempt api) = reconnectAttempts api"
    "maxReconnectAttempts (failed_attempt api) = maxReconnectAttempts api"
    "reconnectDelay (failed_attempt api) = reconnectDelay api"
    "timers (failed_attempt api) = timers api"
    "emitted (failed_attempt api) = emitted api @ [error_event, disconnected]"
    "max_reached_logged (failed_attempt api) = max_reached_logged api + 1"
  using assms by (simp_all add: failed_attempt_def handleReconnect_def)

lemma failed_attempt_retry:
  assumes "reconnectAttempts api < maxReconnectAttempts api"
  shows "reconnectAttempts (failed_attempt api) = reconnectAttempts api + 1"
    "maxReconnectAttempts (failed_attempt api) = maxReconnectAttempts api"
    "reconnectDelay (failed_attempt api) = reconnectDelay api"
    "timers (failed_attempt api) = timers api @ [reconnectDelay api]"
    "emitted (failed_attempt api) = emitted api @ [error_event, disconnected]"
    "max_reached_logged (failed_attempt api) = max_reached_logged api"
  using assms by (simp_all add: failed_attempt_def handleReconnect_def)

lemma on_ws_events_Suc_attempts:
  "on_ws_events api (concat (replicate (Suc n) [ws_error, ws_close])) =
   on_ws_events (failed_attempt api) (concat (replicate n [ws_error, ws_close]))"
  by (simp add: on_ws_events_Cons failed_attempt_def)

lemma after_failed_attempts:
  "reconnectAttempts api \<le> maxReconnectAttempts api \<Longrightarrow>
   (let api' = on_ws_events api (concat (replicate n [ws_error, ws_close]));
        left = maxReconnectAttempts api - reconnectAttempts api
    in timers api' = timers api @ replicate (min n left) (reconnectDelay api) \<and>
       emitted api' = emitted api @ concat (replicate n [error_event, disconnected]) \<and>
       reconnectAttempts api' = reconnectAttempts api + min n left \<and>
       maxReconnectAttempts api' = maxReconnectAttempts api \<and>
       reconnectDelay api' = reconnectDelay api \<and>
       max_reached_logged api' = max_reached_logged api + (n - left))"
proof (induction n arbitrary: api)
  case 0
  then show ?case by (simp add: on_ws_events_Nil)
next
  case (Suc n)
  show ?case
  proof (cases "reconnectAttempts api = maxReconnectAttempts api")
    case True
    note s = failed_attempt_exhausted [OF True]
    have "reconnectAttempts (failed_attempt api) \<le> maxReconnectAttempts (failed_attempt api)"
      using True by (simp add: s)
    from Suc.IH [OF this] show ?thesis
      unfolding on_ws_events_Suc_attempts using True by (simp add: s Let_def)
  next
    case False
    with Suc.prems have lt: "reconnectAttempts api < maxReconnectAttempts api" by simp
    note s = failed_attempt_retry [OF lt]
    have le: "reconnectAttempts (failed_attempt api) \<le> maxReconnectAttempts (failed_attempt api)"
      using lt by (simp add: s)
    obtain r where r: "maxReconnectAttempts api - reconnectAttempts api = Suc r"
      using lt by (metis Suc_diff_Suc)
    then have r': "maxReconnectAttempts api - Suc (reconnectAttempts api) = r" by simp
    from Suc.IH [OF le] show ?thesis
      unfolding on_ws_events_Suc_attempts by (simp add: s Let_def r r' replicate_append_same)
  qed
qed

lemma on_ws_first_close: "on_ws new_DerivAPI ws_close = after_first_close"
  by (simp add: new_DerivAPI_def handleReconnect_def after_first_close_def)

lemma reconnection_run:
  "timers (on_ws_events new_DerivAPI (failed_attempts n)) = replicate (min (Suc n) 5) 5000 \<and>
   emitted (on_ws_events new_DerivAPI (failed_attempts n)) =
     disconnected # concat (replicate n [error_event, disconnected]) \<and>
   reconnectAttempts (on_ws_events new_DerivAPI (failed_attempts n)) = min (Suc n) 5 \<and>
   maxReconnectAttempts (on_ws_events new_DerivAPI (failed_attempts n)) = 5 \<and>
   max_reached_logged (on_ws_events new_DerivAPI (failed_attempts n)) = n - 4"
proof -
  have run: "on_ws_events new_DerivAPI (failed_attempts n) =
      on_ws_events after_first_close (concat (replicate n [ws_error, ws_close]))"
    by (simp only: failed_attempts_def on_ws_events_Cons on_ws_first_close)
  have "reconnectAttempts after_first_close \<le> maxReconnectAttempts after_first_close"
    by (simp add: after_first_close_def)
  from after_failed_attempts [OF this, of n] have
    "timers (on_ws_events after_first_close (concat (replicate n [ws_error, ws_close]))) =
       [5000] @ replicate (min n 4) 5000"
    "emitted (on_ws_events after_first_close (concat (replicate n [ws_error, ws_close]))) =
       [disconnected] @ concat (replicate n [error_event, disconnected])"
    "reconnectAttempts (on_ws_events after_first_close (concat (replicate n [ws_error, ws_close]))) =
       1 + min n 4"
    "maxReconnectAttempts (on_ws_events after_first_close (concat (replicate n [ws_error, ws_close]))) = 5"
    "max_reached_logged (on_ws_events after_first_close (concat (replicate n [ws_error, ws_close]))) = n - 4"
    by (simp_all add: Let_def after_first_close_def)
  moreover have "[5000::nat] @ replicate (min n 4) 5000 = replicate (min (Suc n) 5) 5000"
  proof -
    have "min (Suc n) 5 = Suc (min n 4)" by simp
    then show ?thesis by (simp only: replicate_Suc append_Cons append_Nil)
  qed
  moreover have "1 + min n 4 = min (Suc n) 5" by simp
  ultimately show ?thesis unfolding run by simp
qed

lemma exhausted_stays:
  assumes "maxReconnectAttempts api \<le> reconnectAttempts api" and "ws_open \<notin> set evs"
  shows "timers (on_ws_events api evs) = timers api \<and>
         maxReconnectAttempts (on_ws_events api evs) \<le> reconnectAttempts (on_ws_events api evs)"
  using assms
proof (induction evs arbitrary: api)
  case Nil
  then show ?case by (simp add: on_ws_events_Nil)
next
  case (Cons ev evs)
  from Cons.prems have "ev \<noteq> ws_open" "ws_open \<notin> set evs" by auto
  with Cons.prems(1) have 1: "timers (on_ws api ev) = timers api"
    "maxReconnectAttempts (on_ws api ev) \<le> reconnectAttempts (on_ws api ev)"
    by (cases ev; simp add: handleReconnect_def)+
  from Cons.IH [OF 1(2) \<open>ws_open \<notin> set evs\<close>] 1 show ?case
    by (simp add: on_ws_events_Cons)
qed

text \<open>
  C9, as amended.  After a disconnection followed by \<open>n\<close> reconnection attempts that all
  fail, the client has set \<open>min (n + 1) 5\<close> reconnection timers, each with the delay of
  5000 ms, and emitted only the \<open>disconnected\<close> and \<open>error\<close> events of the sockets;
  from the fifth timer on the attempts are exhausted: each further close only logs the
  message (\<open>n - 4\<close> times so far) and, as long as no socket opens, no event sets another
  timer.
\<close>

theorem reconnect_attempts_bounded:
  "timers (on_ws_events new_DerivAPI (failed_attempts n)) = replicate (min (Suc n) 5) 5000 \<and>
   emitted (on_ws_events new_DerivAPI (failed_attempts n)) =
     disconnected # concat (replicate n [error_event, disconnected]) \<and>
   max_reached_logged (on_ws_events new_DerivAPI (failed_attempts n)) = n - 4 \<and>
   (4 \<le> n \<and> ws_open \<notin> set evs \<longrightarrow>
      timers (on_ws_events (on_ws_events new_DerivAPI (failed_attempts n)) evs) = replicate 5 5000)"
proof -
  note run = reconnection_run [of n]
  have "timers (on_ws_events (on_ws_events new_DerivAPI (failed_attempts n)) evs) = replicate 5 5000"
    if "4 \<le> n" "ws_open \<notin> set evs"
  proof -
    have "maxReconnectAttempts (on_ws_events new_DerivAPI (failed_attempts n))
        \<le> reconnectAttempts (on_ws_events new_DerivAPI (failed_attempts n))"
      using run that(1) by simp
    from exhausted_stays [OF this that(2)] run that(1) show ?thesis by simp
  qed
  with run show ?thesis by blast
qed

theorem reconnect_attempts_bounded_witness:
  "(4::nat) \<le> 5 \<and> ws_open \<notin> set [ws_close, ws_error, ws_close] \<and>
   timers (on_ws_events new_DerivAPI (failed_attempts 5)) = replicate 5 5000 \<and>
   max_reached_logged (on_ws_events new_DerivAPI (failed_attempts 5)) = 1 \<and>
   timers (on_ws_events (on_ws_events new_DerivAPI (failed_attempts 5)) [ws_close, ws_error, ws_close])
     = replicate 5 5000"
  using reconnect_attempts_bounded [of 5 "[ws_close, ws_error, ws_close]"] by simp

text \<open>
  The claim as stated fails: when the attempts are exhausted, \<open>handleReconnect\<close> emits
  nothing.  After the disconnection and four failed attempts the counter has reached the
  maximum; the call made by the next close leaves the emitted events as they are and only
  logs, and the events of the whole run are those of the sockets.
\<close>

theorem reconnect_exhaustion_emits_nothing:
  "reconnectAttempts (on_ws_events new_DerivAPI (failed_attempts 4)) =
     maxReconnectAttempts (on_ws_events new_DerivAPI (failed_attempts 4)) \<and>
   emitted (handleReconnect (on_ws_events new_DerivAPI (failed_attempts 4))) =
     emitted (on_ws_events new_DerivAPI (failed_attempts 4)) \<and>
   max_reached_logged (handleReconnect (on_ws_events new_DerivAPI (failed_attempts 4))) = 1 \<and>
   emitted (on_ws_events new_DerivAPI (failed_attempts 5)) =
     [disconnected, error_event, disconnected, error_event, disconnected, error_event,
      disconnected, error_event, disconnected, error_event, disconnected]"
proof -
  note r4 = reconnection_run [of 4]
  have "emitted (on_ws_events new_DerivAPI (failed_attempts 5)) =
      disconnected # concat (replicate 5 [error_event, disconnected])"
    using reconnection_run [of 5] by blast
  moreover have "concat (replicate 5 [error_event, disconnected]) =
      [error_event, disconnected, error_event, disconnected, error_event,
       disconnected, error_event, disconnected, error_event, disconnected]"
    by (simp add: eval_nat_numeral)
  ultimately show ?thesis using r4 by (simp add: handleReconnect_def)
qed

section \<open>Sampling of candle events\<close>

lemma same_sampling_refl: "same_sampling st st"
  by (simp add: same_sampling_def)

lemma same_sampling_trans:
  "same_sampling st st' \<Longrightarrow> same_sampling st' st'' \<Longrightarrow> same_sampling st st''"
  by (simp add: same_sampling_def)

lemma executeTrade_same_sampling: "same_sampling st (snd (executeTrade e user symb an st))"
  by (auto simp: executeTrade_def Let_def split_beta executeRealDerivTrade_def same_sampling_def
      split: option.splits)

lemma auto_trade_user_same_sampling: "same_sampling st (auto_trade_user e symb an user st)"
proof -
  let ?st1 = "st\<lparr>db := snd (getUserDailyTrades e (db st) (au_id user))\<rparr>"
  have "same_sampling ?st1 (snd (executeTrade e user symb an ?st1))"
    by (rule executeTrade_same_sampling)
  then show ?thesis
    by (auto simp: auto_trade_user_def Let_def split_beta same_sampling_def
        split: prod.split option.split)
qed

lemma auto_trade_loop_same_sampling: "same_sampling st (auto_trade_loop e symb an us st)"
proof (induction us arbitrary: st)
  case Nil
  then show ?case by (simp add: same_sampling_refl)
next
  case (Cons u us)
  show ?case
    using same_sampling_trans [OF auto_trade_user_same_sampling Cons.IH] by simp
qed

lemma executeAutoTrade_same_sampling: "same_sampling st (executeAutoTrade e symb an st)"
proof -
  have "same_sampling (st\<lparr>db := d1\<rparr>) (auto_trade_loop e symb an us (st\<lparr>db := d1\<rparr>))" for d1 us
    by (rule auto_trade_loop_same_sampling)
  then show ?thesis by (simp add: executeAutoTrade_def split_beta same_sampling_def)
qed

lemma analyzeWithAI_sampling:
  "candlesReceived (stats (analyzeWithAI e st symb)) = candlesReceived (stats st) \<and>
   analysed (analyzeWithAI e st symb) = analysed st @ [symb]"
proof -
  have "same_sampling s (executeAutoTrade e symb dec s)" for s dec
    by (rule executeAutoTrade_same_sampling)
  then show ?thesis
    by (auto simp: analyzeWithAI_def Let_def split_beta same_sampling_def
        split: analysis_result.split)
qed





lemma process_candle_sampling:
  "analysed (process_candle e st c) =
     analysed st @ (if candlesReceived (stats st) mod 5 = 0 then [cd_symbol c] else [])"
  by (simp add: process_candle_def Let_def shouldAnalyzeCandle_def analyzeWithAI_sampling)




end
